theory Spec2Isabelle
  imports Main "HOL-Library.Word" "HOL-Library.Multiset"
begin

unbundle bit_operations_syntax

section \<open>Errors, log lines and the operating system as seen by dms.go\<close>

text \<open>
  Go errors are values. \<open>ErrNotExist\<close> is the sentinel \<^verbatim>\<open>os.ErrNotExist\<close>; the
  functions of package \<^verbatim>\<open>os\<close> never return it bare: by their documentation an error of
  \<^verbatim>\<open>os.Open\<close>, \<^verbatim>\<open>os.Remove\<close> or \<^verbatim>\<open>os.CreateTemp\<close> is a \<^verbatim>\<open>*PathError\<close> and an error of
  \<^verbatim>\<open>os.Rename\<close> is a \<^verbatim>\<open>*LinkError\<close>, each wrapping the system call's error number.
  Go's \<^verbatim>\<open>==\<close> on two error values is equality of the dynamic values, which is the
  equality of this datatype.
\<close>

datatype go_error =
    ErrNotExist
  | Errno nat
  | PathError string string go_error
  | LinkError string string string go_error
  | JsonError string
  | ParseError string string
  | OtherError string

text \<open>The lines the program logs: an error printed as it is, or one of its format strings
  with the arguments it was given.\<close>

datatype 'a log_entry =
    LogErr go_error
  | LogCount string nat
  | LogQuote string string
  | LogMarshal 'a go_error
  | LogLine string

datatype fs_call =
    Open string
  | Read string
  | CreateTemp string string
  | Write string
  | Close string
  | Remove string
  | Rename string string

text \<open>
  What the program cannot decide: the platform (\<^verbatim>\<open>runtime.GOOS\<close> and the platform's
  \<^verbatim>\<open>filepath.Dir\<close> and \<^verbatim>\<open>filepath.Base\<close>), the name \<^verbatim>\<open>os.CreateTemp\<close> picks in a directory
  for a pattern, the failures the operating system injects into a call
  (\<open>fault\<close>: \<open>None\<close> when the call meets no failure but those the file table itself
  causes), and how much of a failed write reached the file.
\<close>

record env =
  GOOS :: string
  filepath_Dir :: "string \<Rightarrow> string"
  filepath_Base :: "string \<Rightarrow> string"
  temp_file :: "string \<Rightarrow> string \<Rightarrow> string"
  fault :: "fs_call \<Rightarrow> go_error option"
  short_write :: "string \<Rightarrow> string"

text \<open>The world the program runs in: the files by name, the system calls made so far and
  the lines logged so far, both oldest first.\<close>

record 'a world =
  files :: "string \<rightharpoonup> string"
  calls :: "fs_call list"
  logged :: "'a log_entry list"

definition called :: "fs_call \<Rightarrow> 'a world \<Rightarrow> 'a world" where
  "called sc w = w\<lparr>calls := calls w @ [sc]\<rparr>"

definition log_Print :: "'a log_entry \<Rightarrow> 'a world \<Rightarrow> 'a world" where
  "log_Print l w = w\<lparr>logged := logged w @ [l]\<rparr>"

definition ENOENT :: nat where
  "ENOENT = 2"

definition EEXIST :: nat where
  "EEXIST = 17"

text \<open>A file handle is the name of the open file.\<close>

definition os_Open :: "env \<Rightarrow> string \<Rightarrow> 'a world \<Rightarrow> (go_error + string) \<times> 'a world" where
  "os_Open e name w =
     (case files w name of
        None \<Rightarrow> (Inl (PathError ''open'' name (Errno ENOENT)), called (Open name) w)
      | Some _ \<Rightarrow>
          (case fault e (Open name) of
             Some err \<Rightarrow> (Inl (PathError ''open'' name err), called (Open name) w)
           | None \<Rightarrow> (Inr name, called (Open name) w)))"

text \<open>\<^verbatim>\<open>os.CreateTemp\<close> opens with \<^verbatim>\<open>O_EXCL\<close>: the file it returns did not exist before.\<close>

definition os_CreateTemp ::
  "env \<Rightarrow> string \<Rightarrow> string \<Rightarrow> 'a world \<Rightarrow> (go_error + string) \<times> 'a world" where
  "os_CreateTemp e dir pat w =
     (case fault e (CreateTemp dir pat) of
        Some err \<Rightarrow> (Inl (PathError ''createtemp'' (temp_file e dir pat) err), called (CreateTemp dir pat) w)
      | None \<Rightarrow>
          (case files w (temp_file e dir pat) of
             Some _ \<Rightarrow>
               (Inl (PathError ''createtemp'' (temp_file e dir pat) (Errno EEXIST)),
                called (CreateTemp dir pat) w)
           | None \<Rightarrow>
               (Inr (temp_file e dir pat),
                called (CreateTemp dir pat) (w\<lparr>files := (files w)(temp_file e dir pat \<mapsto> [])\<rparr>))))"

definition os_Remove :: "env \<Rightarrow> string \<Rightarrow> 'a world \<Rightarrow> go_error option \<times> 'a world" where
  "os_Remove e name w =
     (case files w name of
        None \<Rightarrow> (Some (PathError ''remove'' name (Errno ENOENT)), called (Remove name) w)
      | Some _ \<Rightarrow>
          (case fault e (Remove name) of
             Some err \<Rightarrow> (Some (PathError ''remove'' name err), called (Remove name) w)
           | None \<Rightarrow> (None, called (Remove name) (w\<lparr>files := (files w)(name := None)\<rparr>))))"

definition os_Rename :: "env \<Rightarrow> string \<Rightarrow> string \<Rightarrow> 'a world \<Rightarrow> go_error option \<times> 'a world" where
  "os_Rename e old new w =
     (case files w old of
        None \<Rightarrow> (Some (LinkError ''rename'' old new (Errno ENOENT)), called (Rename old new) w)
      | Some d \<Rightarrow>
          (case fault e (Rename old new) of
             Some err \<Rightarrow> (Some (LinkError ''rename'' old new err), called (Rename old new) w)
           | None \<Rightarrow>
               (None, called (Rename old new) (w\<lparr>files := ((files w)(old := None))(new \<mapsto> d)\<rparr>))))"

definition file_Close :: "string \<Rightarrow> 'a world \<Rightarrow> 'a world" where
  "file_Close f w = called (Close f) w"

text \<open>
  Package \<^verbatim>\<open>encoding/json\<close>, for the key type \<open>'k\<close> and the value type \<open>'v\<close> of the
  cache: \<^verbatim>\<open>json.Marshal\<close> of one key or one value, the encoding of a list of items
  as \<^verbatim>\<open>Encoder.Encode\<close> writes it and the decoding of a file's text into
  \<^verbatim>\<open>[]dms.FfprobeCacheItem\<close>.
\<close>

record ('k, 'v) json =
  json_Marshal :: "'k + 'v \<Rightarrow> go_error + string"
  encode_items :: "('k \<times> 'v) list \<Rightarrow> go_error + string"
  decode_items :: "string \<Rightarrow> go_error + ('k \<times> 'v) list"

text \<open>\<^verbatim>\<open>Encoder.Encode\<close> marshals first and writes nothing when that fails; then it writes
  to the file, after what the file holds.\<close>

definition Encoder_Encode ::
  "('k, 'v) json \<Rightarrow> env \<Rightarrow> string \<Rightarrow> ('k \<times> 'v) list \<Rightarrow> 'a world \<Rightarrow> go_error option \<times> 'a world" where
  "Encoder_Encode js e f items w =
     (case encode_items js items of
        Inl err \<Rightarrow> (Some err, w)
      | Inr b \<Rightarrow>
          (case fault e (Write f) of
             Some err \<Rightarrow>
               (Some (PathError ''write'' f err),
                called (Write f)
                  (w\<lparr>files := (files w)(f \<mapsto> (case files w f of None \<Rightarrow> [] | Some old \<Rightarrow> old) @ short_write e b)\<rparr>))
           | None \<Rightarrow>
               (None,
                called (Write f)
                  (w\<lparr>files := (files w)(f \<mapsto> (case files w f of None \<Rightarrow> [] | Some old \<Rightarrow> old) @ b)\<rparr>))))"

definition Decoder_Decode ::
  "('k, 'v) json \<Rightarrow> env \<Rightarrow> string \<Rightarrow> 'a world \<Rightarrow> (go_error + ('k \<times> 'v) list) \<times> 'a world" where
  "Decoder_Decode js e f w =
     (case fault e (Read f) of
        Some err \<Rightarrow> (Inl (PathError ''read'' f err), called (Read f) w)
      | None \<Rightarrow>
          (decode_items js (case files w f of None \<Rightarrow> [] | Some d \<Rightarrow> d), called (Read f) w))"


section \<open>The probe cache and its snapshot file\<close>

text \<open>
  \<^verbatim>\<open>fFprobeCache\<close> wraps a \<^verbatim>\<open>*rrcache.RRCache\<close> (package
  \<^verbatim>\<open>github.com/anacrolix/dms/rrcache\<close>, a dependency) and a mutex. The methods below are
  run one at a time, so the mutex is free at every call and released at every return; the
  wrapped cache is a value of any type \<open>'c\<close> with \<^verbatim>\<open>rrcache.New\<close> and the three methods the
  program calls.
\<close>

record ('c, 'k, 'v) rrcache =
  c_New :: "int \<Rightarrow> 'c"
  c_Set :: "'k \<Rightarrow> 'v \<Rightarrow> int \<Rightarrow> 'c \<Rightarrow> 'c"
  c_Get :: "'c \<Rightarrow> 'k \<Rightarrow> 'v option"
  c_Items :: "'c \<Rightarrow> ('k \<times> 'v) list"

text \<open>Conversion to \<^verbatim>\<open>int64\<close> and \<^verbatim>\<open>int64\<close> addition wrap around.\<close>

definition int64 :: "int \<Rightarrow> int" where
  "int64 a = (a + 2 ^ 63) mod 2 ^ 64 - 2 ^ 63"

text \<open>dms.go, lines 104 to 117. The loop over \<^verbatim>\<open>[]interface{}{key, value}\<close> is
  \<open>Set_sizes\<close>: its state is \<^verbatim>\<open>size\<close> (here \<open>sz\<close>) and the world it logs into.\<close>

fun Set_sizes ::
  "('k, 'v) json \<Rightarrow> ('k + 'v) list \<Rightarrow> int \<Rightarrow> ('k + 'v) world \<Rightarrow> int \<times> ('k + 'v) world" where
  "Set_sizes js [] sz w = (sz, w)"
| "Set_sizes js (v # vs) sz w =
     (case json_Marshal js v of
        Inl err \<Rightarrow> Set_sizes js vs sz (log_Print (LogMarshal v err) w)
      | Inr b \<Rightarrow> Set_sizes js vs (int64 (sz + int64 (int (length b)))) w)"

definition fFprobeCache_Set ::
  "('k, 'v) json \<Rightarrow> ('c, 'k, 'v) rrcache \<Rightarrow> 'k \<Rightarrow> 'v \<Rightarrow> 'c \<Rightarrow> ('k + 'v) world
     \<Rightarrow> 'c \<times> ('k + 'v) world" where
  "fFprobeCache_Set js ops key val c w =
     (case Set_sizes js [Inl key, Inr val] 0 w of
        (sz, w') \<Rightarrow> (c_Set ops key val sz c, w'))"

definition fFprobeCache_Get :: "('c, 'k, 'v) rrcache \<Rightarrow> 'c \<Rightarrow> 'k \<Rightarrow> 'v option" where
  "fFprobeCache_Get ops c key = c_Get ops c key"

text \<open>dms.go, lines 237 to 254. The loop over the decoded items is \<open>load_items\<close>.\<close>

fun load_items ::
  "('k, 'v) json \<Rightarrow> ('c, 'k, 'v) rrcache \<Rightarrow> ('k \<times> 'v) list \<Rightarrow> 'c \<Rightarrow> ('k + 'v) world
     \<Rightarrow> 'c \<times> ('k + 'v) world" where
  "load_items js ops [] c w = (c, w)"
| "load_items js ops (item # items) c w =
     (case fFprobeCache_Set js ops (fst item) (snd item) c w of
        (c', w') \<Rightarrow> load_items js ops items c' w')"

definition load ::
  "env \<Rightarrow> ('k, 'v) json \<Rightarrow> ('c, 'k, 'v) rrcache \<Rightarrow> string \<Rightarrow> 'c \<Rightarrow> ('k + 'v) world
     \<Rightarrow> go_error option \<times> 'c \<times> ('k + 'v) world" where
  "load e js ops path c w =
     (case os_Open e path w of
        (Inl err, w1) \<Rightarrow> (Some err, c, w1)
      | (Inr f, w1) \<Rightarrow>
          (case Decoder_Decode js e f w1 of
             (Inl err, w2) \<Rightarrow> (Some err, c, file_Close f w2)
           | (Inr items, w2) \<Rightarrow>
               (case load_items js ops items c w2 of
                  (c', w3) \<Rightarrow>
                    (None, c',
                     file_Close f
                       (log_Print (LogCount ''added %d items from cache'' (length items)) w3)))))"

text \<open>dms.go, lines 256 to 286.\<close>

definition save ::
  "env \<Rightarrow> ('k, 'v) json \<Rightarrow> ('c, 'k, 'v) rrcache \<Rightarrow> string \<Rightarrow> 'c \<Rightarrow> ('k + 'v) world
     \<Rightarrow> go_error option \<times> ('k + 'v) world" where
  "save e js ops path c w =
     (let items = c_Items ops c in
      case os_CreateTemp e (filepath_Dir e path) (filepath_Base e path) w of
        (Inl err, w1) \<Rightarrow> (Some err, w1)
      | (Inr f, w1) \<Rightarrow>
          (case Encoder_Encode js e f items w1 of
             (Some err, w2) \<Rightarrow> (Some err, snd (os_Remove e f (file_Close f w2)))
           | (None, w2) \<Rightarrow>
               (case (if GOOS e = ''windows''
                      then (case os_Remove e path (file_Close f w2) of
                              (err, w3) \<Rightarrow> (if err = Some ErrNotExist then None else err, w3))
                      else (None, file_Close f w2)) of
                  (err3, w3) \<Rightarrow>
                    (case (if err3 = None then os_Rename e f path w3 else (err3, w3)) of
                       (None, w4) \<Rightarrow>
                         (None, log_Print (LogCount ''saved cache with %d items'' (length items)) w4)
                     | (Some err, w4) \<Rightarrow> (Some err, snd (os_Remove e f w4))))))"

text \<open>dms.go, lines 198 to 203: \<open>runErr\<close> makes the cache and loads the snapshot into it;
  an error of \<open>load\<close> is printed to the log and startup goes on.\<close>

definition runErr_load ::
  "env \<Rightarrow> ('k, 'v) json \<Rightarrow> ('c, 'k, 'v) rrcache \<Rightarrow> string \<Rightarrow> ('k + 'v) world
     \<Rightarrow> 'c \<times> ('k + 'v) world" where
  "runErr_load e js ops FFprobeCachePath w =
     (case load e js ops FFprobeCachePath (c_New ops (push_bit 20 64)) w of
        (Some err, c, w') \<Rightarrow> (c, log_Print (LogErr err) w')
      | (None, c, w') \<Rightarrow> (c, w'))"

text \<open>What the specification says a component adds to the size that \<^verbatim>\<open>Set\<close> computes: its
  serialized byte length, or zero when serializing it fails; and the log lines of the
  failures.\<close>

definition contribution :: "('k, 'v) json \<Rightarrow> 'k + 'v \<Rightarrow> int" where
  "contribution js x = (case json_Marshal js x of Inl err \<Rightarrow> 0 | Inr b \<Rightarrow> int (length b))"

definition marshal_failures :: "('k, 'v) json \<Rightarrow> ('k + 'v) list \<Rightarrow> ('k + 'v) log_entry list" where
  "marshal_failures js xs =
     concat (map (\<lambda>x. case json_Marshal js x of Inl err \<Rightarrow> [LogMarshal x err] | Inr b \<Rightarrow> []) xs)"

definition recomputed :: "('k, 'v) json \<Rightarrow> 'k \<times> 'v \<Rightarrow> int" where
  "recomputed js item = int64 (contribution js (Inl (fst item)) + contribution js (Inr (snd item)))"

text \<open>Lines 271 to 285 of dms.go on their own, once the temporary file \<open>f\<close> is written and
  closed; \<open>save\<close> equals it there, which the proofs below use.\<close>

definition save_replace :: "env \<Rightarrow> string \<Rightarrow> string \<Rightarrow> nat \<Rightarrow> 'a world \<Rightarrow> go_error option \<times> 'a world" where
  "save_replace e f path n w =
     (case (if GOOS e = ''windows''
            then (case os_Remove e path w of
                    (err, w3) \<Rightarrow> (if err = Some ErrNotExist then None else err, w3))
            else (None, w)) of
        (err3, w3) \<Rightarrow>
          (case (if err3 = None then os_Rename e f path w3 else (err3, w3)) of
             (None, w4) \<Rightarrow> (None, log_Print (LogCount ''saved cache with %d items'' n) w4)
           | (Some err, w4) \<Rightarrow> (Some err, snd (os_Remove e f w4))))"

section \<open>The program: configuration, interfaces and the served instance\<close>

text \<open>\<^verbatim>\<open>log.Fatal\<close> and \<^verbatim>\<open>log.Fatalf\<close> print and end the process: a function that reaches
  one does not return. \<open>Fatal\<close> carries the format string (empty for \<^verbatim>\<open>log.Fatal\<close>) and
  the error.\<close>

datatype 'a outcome =
    Returns 'a
  | Fatal string go_error

text \<open>The fields of \<^verbatim>\<open>net.Interface\<close>; \<^verbatim>\<open>net.Flags\<close> is a \<^verbatim>\<open>uint\<close> (64 bits on the
  platform the README builds for) and \<^verbatim>\<open>net.FlagUp\<close> is its lowest bit.\<close>

record net_Interface =
  Index :: int
  MTU :: int
  Name :: string
  HardwareAddr :: "8 word list"
  Flags :: "64 word"

definition FlagUp :: "64 word" where
  "FlagUp = 1"

text \<open>What the network and the libraries answer: \<^verbatim>\<open>net.Interfaces\<close>,
  \<^verbatim>\<open>net.InterfaceByName\<close>, \<^verbatim>\<open>net.Listen\<close> on an address (a listener is a number), the
  icons made for the configured sizes from the configured image (an icon is its bytes; a
  bad size or an image that cannot be read or decoded ends the process), and \<^verbatim>\<open>Close\<close>
  and \<^verbatim>\<open>Init\<close> of a \<^verbatim>\<open>dms.Server\<close>.\<close>

record dms_Server =
  Interfaces :: "net_Interface list"
  HTTPConn :: nat
  Icons :: "8 word list list"

record net_env =
  net_Interfaces :: "go_error + net_Interface list"
  net_InterfaceByName :: "string \<Rightarrow> go_error + net_Interface"
  net_Listen :: "string \<Rightarrow> go_error + nat"
  make_Icons :: "string list \<Rightarrow> string \<Rightarrow> go_error + 8 word list list"
  Server_Close :: "dms_Server \<Rightarrow> go_error option"
  Server_Init :: "dms_Server \<Rightarrow> go_error option"

text \<open>The fields of \<^verbatim>\<open>dmsConfig\<close> that the functions below read.\<close>

record dmsConfig =
  IfName :: string
  Http :: string
  DeviceIcon :: string
  DeviceIconSizes :: "string list"
  FFprobeCachePath :: string

text \<open>dms.go, lines 405 to 428.\<close>

definition getInterfaces :: "net_env \<Rightarrow> string \<Rightarrow> net_Interface list outcome" where
  "getInterfaces ne ifName =
     (case (if ifName = []
            then (case net_Interfaces ne of
                    Inl err \<Rightarrow> ([], Some err)
                  | Inr ifs \<Rightarrow> (ifs, None))
            else (case net_InterfaceByName ne ifName of
                    Inl err \<Rightarrow> ([], Some err)
                  | Inr ifi \<Rightarrow> ([ifi], None))) of
        (ifs, Some err) \<Rightarrow> Fatal [] err
      | (ifs, None) \<Rightarrow>
          Returns (filter (\<lambda>ifi. \<not> (Flags ifi AND FlagUp = 0 \<or> MTU ifi \<le> 0)) ifs))"

text \<open>The specification's words for what a tick compares: of the interfaces the system
  holds, those that are up and have a positive MTU.\<close>

definition up_interfaces :: "net_Interface list \<Rightarrow> net_Interface list" where
  "up_interfaces found = filter (\<lambda>ifi. Flags ifi AND FlagUp \<noteq> 0 \<and> 0 < MTU ifi) found"

text \<open>dms.go, lines 347 to 403: the server is bound to the interfaces it is given and to
  a listener on \<^verbatim>\<open>config.Http\<close>, and gets its icons; a failed \<^verbatim>\<open>net.Listen\<close> is fatal, and
  so is the making of the icons when it fails (lines 367 to 395, one answer of the
  environment here). The fields left out copy the configuration.\<close>

definition newDmsServer :: "net_env \<Rightarrow> dmsConfig \<Rightarrow> net_Interface list \<Rightarrow> dms_Server outcome" where
  "newDmsServer ne config ifs =
     (case net_Listen ne (Http config) of
        Inl err \<Rightarrow> Fatal [] err
      | Inr conn \<Rightarrow>
          (case make_Icons ne (DeviceIconSizes config) (DeviceIcon config) of
             Inl err \<Rightarrow> Fatal ''bad device icon size: '' err
           | Inr icons \<Rightarrow> Returns \<lparr>Interfaces = ifs, HTTPConn = conn, Icons = icons\<rparr>))"

text \<open>What a tick of the monitor does to the served instance, in order.\<close>

datatype action =
    ServerClose dms_Server
  | ServerNew "net_Interface list"
  | ServerInit dms_Server
  | GoServerRun dms_Server

text \<open>
  dms.go, lines 216 to 230: one pass of the monitor's loop after its sleep, on the
  instance \<open>srv\<close> that \<^verbatim>\<open>p.dmsServer\<close> holds. The result is what was done and the
  instance \<^verbatim>\<open>p.dmsServer\<close> holds afterwards, or the fatal error that ended the process.
\<close>

definition monitor_tick ::
  "net_env \<Rightarrow> dmsConfig \<Rightarrow> dms_Server \<Rightarrow> action list \<times> dms_Server outcome" where
  "monitor_tick ne config srv =
     (case getInterfaces ne (IfName config) of
        Fatal fmt err \<Rightarrow> ([], Fatal fmt err)
      | Returns ifs \<Rightarrow>
          if length (Interfaces srv) < length ifs
          then (case Server_Close ne srv of
                  Some err \<Rightarrow> ([ServerClose srv], Fatal ''error closing dms server: %v'' err)
                | None \<Rightarrow>
                    (case newDmsServer ne config ifs of
                       Fatal fmt err \<Rightarrow> ([ServerClose srv, ServerNew ifs], Fatal fmt err)
                     | Returns srv' \<Rightarrow>
                         (case Server_Init ne srv' of
                            Some err \<Rightarrow>
                              ([ServerClose srv, ServerNew ifs, ServerInit srv'],
                               Fatal ''error initing dms server: %v'' err)
                          | None \<Rightarrow>
                              ([ServerClose srv, ServerNew ifs, ServerInit srv', GoServerRun srv'],
                               Returns srv'))))
          else ([], Returns srv))"

section \<open>Start and Stop\<close>

text \<open>
  main.go, lines 55 to 83. \<open>Stop\<close> runs in the goroutine of the service framework, the
  function literal of \<open>Start\<close> in a goroutine of its own; they share the channel
  \<^verbatim>\<open>p.quit\<close> and the wait group \<^verbatim>\<open>p.wg\<close>. A state holds, for each of the two, the source
  line it is about to run (\<open>0\<close> once it has returned), the two shared objects, the local
  \<^verbatim>\<open>err\<close> of \<open>Stop\<close>, whether the process has ended, and what has happened so far.
\<close>

datatype happening =
    Println string
  | CloseCalled
  | SaveCalled
  | Printed go_error
  | QuitClosed
  | RunStarted
  | WgDone
  | ProcessExit go_error
  | StopReturned "go_error option"

record threads =
  stop_at :: nat
  loop_at :: nat
  quit_closed :: bool
  wg :: int
  stop_err :: "go_error option"
  exited :: bool
  happened :: "happening list"


definition did :: "happening \<Rightarrow> threads \<Rightarrow> threads" where
  "did h s = s\<lparr>happened := happened s @ [h]\<rparr>"






section \<open>The allowed networks\<close>

text \<open>\<^verbatim>\<open>net.IP\<close> and \<^verbatim>\<open>net.IPMask\<close> are byte slices. \<^verbatim>\<open>net.ParseIP\<close> (\<open>None\<close> for \<^verbatim>\<open>nil\<close>) and
  \<^verbatim>\<open>net.ParseCIDR\<close> are those of package \<^verbatim>\<open>net\<close>.\<close>

record IPNet =
  IP :: "8 word list"
  Mask :: "8 word list"

record net_parse =
  ParseIP :: "string \<Rightarrow> 8 word list option"
  ParseCIDR :: "string \<Rightarrow> go_error + 8 word list \<times> IPNet"

text \<open>\<^verbatim>\<open>strings.Split(s, sep)\<close> for a separator of one byte: the pieces between the
  separators, empty pieces included, so one piece more than there are separators.\<close>

fun strings_Split :: "string \<Rightarrow> char \<Rightarrow> string list" where
  "strings_Split [] sep = [[]]"
| "strings_Split (ch # s) sep =
     (if ch = sep then [] # strings_Split s sep
      else (case strings_Split s sep of
              [] \<Rightarrow> [[ch]]
            | piece # pieces \<Rightarrow> (ch # piece) # pieces))"

text \<open>The second result of \<^verbatim>\<open>net.ParseCIDR\<close> with the error ignored: a \<^verbatim>\<open>*net.IPNet\<close>,
  \<^verbatim>\<open>nil\<close> when parsing failed.\<close>

definition ipnet_of :: "go_error + 8 word list \<times> IPNet \<Rightarrow> IPNet option" where
  "ipnet_of r = (case r of Inl err \<Rightarrow> None | Inr (ip, ipnet) \<Rightarrow> Some ipnet)"

text \<open>dms.go, lines 315 to 345. The loop over the pieces is \<open>makeIpNets_loop\<close>; its state
  is \<^verbatim>\<open>nets\<close> and the log.\<close>

fun makeIpNets_loop ::
  "net_parse \<Rightarrow> string list \<Rightarrow> IPNet option list \<Rightarrow> 'a log_entry list
     \<Rightarrow> IPNet option list \<times> 'a log_entry list" where
  "makeIpNets_loop np [] nets lg = (nets, lg)"
| "makeIpNets_loop np (el # els) nets lg =
     (case ParseIP np el of
        None \<Rightarrow>
          (case ParseCIDR np el of
             Inr (ip, ipnet) \<Rightarrow> makeIpNets_loop np els (nets @ [Some ipnet]) lg
           | Inl err \<Rightarrow>
               makeIpNets_loop np els nets (lg @ [LogQuote ''unable to parse expression %q'' el]))
      | Some ip \<Rightarrow>
          (case ParseCIDR np (el @ ''/32'') of
             Inr (ip', ipnet) \<Rightarrow> makeIpNets_loop np els (nets @ [Some ipnet]) lg
           | Inl err \<Rightarrow>
               makeIpNets_loop np els nets (lg @ [LogQuote ''unable to parse ip %q'' el])))"

definition makeIpNets :: "net_parse \<Rightarrow> string \<Rightarrow> IPNet option list \<times> 'a log_entry list" where
  "makeIpNets np s =
     (if length s < 1
      then ([] @ [ipnet_of (ParseCIDR np ''0.0.0.0/0'')] @ [ipnet_of (ParseCIDR np ''::/0'')], [])
      else makeIpNets_loop np (strings_Split s CHR '','') [] [])"

text \<open>The specification's reading of the loop: what one element of the list adds to the
  networks, and the log line of an element that adds nothing.\<close>

definition kept :: "net_parse \<Rightarrow> string \<Rightarrow> IPNet option" where
  "kept np el =
     (case ParseIP np el of
        Some ip \<Rightarrow> ipnet_of (ParseCIDR np (el @ ''/32''))
      | None \<Rightarrow> ipnet_of (ParseCIDR np el))"

definition skipped :: "net_parse \<Rightarrow> string \<Rightarrow> 'a log_entry list" where
  "skipped np el =
     (case kept np el of
        Some ipnet \<Rightarrow> []
      | None \<Rightarrow>
          [LogQuote
             (case ParseIP np el of
                None \<Rightarrow> ''unable to parse expression %q''
              | Some ip \<Rightarrow> ''unable to parse ip %q'') el])"

section \<open>Concrete scenes\<close>

text \<open>
  Small concrete environments on which the theorems below are run: paths whose parts are
  separated by \<open>/\<close>, a temporary name that appends \<open>1234\<close> to the pattern, a cache that
  records the calls of \<^verbatim>\<open>Set\<close> in order, and a codec that marshals short strings and
  knows two item lists.
\<close>

definition slash_Base :: "string \<Rightarrow> string" where
  "slash_Base p = rev (takeWhile (\<lambda>ch. ch \<noteq> CHR ''/'') (rev p))"

definition slash_Dir :: "string \<Rightarrow> string" where
  "slash_Dir p = rev (tl (dropWhile (\<lambda>ch. ch \<noteq> CHR ''/'') (rev p)))"

definition demo_env :: "string \<Rightarrow> (fs_call \<Rightarrow> go_error option) \<Rightarrow> env" where
  "demo_env os flt =
     \<lparr>GOOS = os, filepath_Dir = slash_Dir, filepath_Base = slash_Base,
      temp_file = (\<lambda>dir pat. dir @ ''/'' @ pat @ ''1234''), fault = flt,
      short_write = take 1\<rparr>"

definition recorder :: "(('k \<times> 'v \<times> int) list, 'k, 'v) rrcache" where
  "recorder =
     \<lparr>c_New = (\<lambda>maxSize. []),
      c_Set = (\<lambda>key val sz c. c @ [(key, val, sz)]),
      c_Get = (\<lambda>c key. map_option fst (map_of (rev c) key)),
      c_Items = map (\<lambda>x. (fst x, fst (snd x)))\<rparr>"

definition demo_json :: "(string, string) json" where
  "demo_json =
     \<lparr>json_Marshal = (\<lambda>x. case x of
          Inl k \<Rightarrow>
            if length k < 256 then Inr (''\"'' @ k @ ''\"'') else Inl (JsonError ''unsupported value'')
        | Inr v \<Rightarrow>
            if v = ''NaN'' \<or> 256 \<le> length v then Inl (JsonError ''unsupported value'') else Inr v),
      encode_items = (\<lambda>items.
          if items = [] then Inr ''null''
          else if items = [(''a.mkv'', ''{}'')] then Inr ''[{\"Key\":\"a.mkv\",\"Value\":{}}]''
          else Inl (JsonError ''unsupported value'')),
      decode_items = (\<lambda>b.
          if b = ''null'' then Inr []
          else if b = ''[{\"Key\":\"a.mkv\",\"Value\":{}}]'' then Inr [(''a.mkv'', ''{}'')]
          else Inl (JsonError ''invalid character''))\<rparr>"

definition demo_world :: "(string \<rightharpoonup> string) \<Rightarrow> (string + string) world" where
  "demo_world fs = \<lparr>files = fs, calls = [], logged = []\<rparr>"

definition cache_file :: string where
  "cache_file = ''/home/u/.dms-ffprobe-cache''"

definition cache_tmp :: string where
  "cache_tmp = ''/home/u/.dms-ffprobe-cache1234''"

definition one_item :: "(string \<times> string \<times> int) list" where
  "one_item = [(''a.mkv'', ''{}'', 9)]"

definition no_fault :: "fs_call \<Rightarrow> go_error option" where
  "no_fault sc = None"

definition full_disk :: "fs_call \<Rightarrow> go_error option" where
  "full_disk sc = (if sc = Write cache_tmp then Some (Errno 28) else None)"

definition rename_denied :: "fs_call \<Rightarrow> go_error option" where
  "rename_denied sc = (if sc = Rename cache_tmp cache_file then Some (Errno 13) else None)"

definition snapshot_text :: string where
  "snapshot_text = ''[{\"Key\":\"a.mkv\",\"Value\":{}}]''"

section \<open>Invariants of Stop and the goroutine of Start\<close>








section \<open>Scenes for the monitor and the allowed networks\<close>

definition eth0 :: net_Interface where
  "eth0 = \<lparr>Index = 2, MTU = 1500, Name = ''eth0'', HardwareAddr = [], Flags = 19\<rparr>"

definition wlan0 :: net_Interface where
  "wlan0 = \<lparr>Index = 3, MTU = 1500, Name = ''wlan0'', HardwareAddr = [], Flags = 19\<rparr>"

definition tun0 :: net_Interface where
  "tun0 = \<lparr>Index = 4, MTU = 1400, Name = ''tun0'', HardwareAddr = [], Flags = 24\<rparr>"

definition demo_net :: "net_Interface list \<Rightarrow> net_env" where
  "demo_net ifs =
     \<lparr>net_Interfaces = Inr ifs,
      net_InterfaceByName = (\<lambda>name. Inl (OtherError ''no such network interface'')),
      net_Listen = (\<lambda>addr. Inr 7),
      make_Icons = (\<lambda>sizes image. Inr (map (\<lambda>size. []) sizes)),
      Server_Close = (\<lambda>srv. None),
      Server_Init = (\<lambda>srv. None)\<rparr>"

definition only_wlan0 :: net_env where
  "only_wlan0 =
     \<lparr>net_Interfaces = Inr [eth0, tun0, wlan0],
      net_InterfaceByName =
        (\<lambda>name. if name = ''wlan0'' then Inr wlan0
                 else Inl (OtherError ''no such network interface'')),
      net_Listen = (\<lambda>addr. Inr 7),
      make_Icons = (\<lambda>sizes image. Inr (map (\<lambda>size. []) sizes)),
      Server_Close = (\<lambda>srv. None),
      Server_Init = (\<lambda>srv. None)\<rparr>"

definition wlan0_config :: dmsConfig where
  "wlan0_config =
     \<lparr>IfName = ''wlan0'', Http = '':1338'', DeviceIcon = [], DeviceIconSizes = [''48'', ''128''],
      FFprobeCachePath = cache_file\<rparr>"

definition bound_none :: dms_Server where
  "bound_none = \<lparr>Interfaces = [], HTTPConn = 3, Icons = [[], []]\<rparr>"

definition bound_wlan0 :: dms_Server where
  "bound_wlan0 = \<lparr>Interfaces = [wlan0], HTTPConn = 7, Icons = [[], []]\<rparr>"

definition demo_config :: dmsConfig where
  "demo_config =
     \<lparr>IfName = [], Http = '':1338'', DeviceIcon = [], DeviceIconSizes = [''48'', ''128''],
      FFprobeCachePath = cache_file\<rparr>"

definition bound_eth0 :: dms_Server where
  "bound_eth0 = \<lparr>Interfaces = [eth0], HTTPConn = 3, Icons = [[], []]\<rparr>"

definition bound_both :: dms_Server where
  "bound_both = \<lparr>Interfaces = [eth0, wlan0], HTTPConn = 7, Icons = [[], []]\<rparr>"

definition demo_parse :: net_parse where
  "demo_parse =
     \<lparr>ParseIP = (\<lambda>s. if s = ''10.0.0.1'' then Some [10, 0, 0, 1] else None),
      ParseCIDR = (\<lambda>s.
        if s = ''0.0.0.0/0'' then Inr ([0, 0, 0, 0], \<lparr>IP = [0, 0, 0, 0], Mask = [0, 0, 0, 0]\<rparr>)
        else if s = ''::/0'' then Inr (replicate 16 0, \<lparr>IP = replicate 16 0, Mask = replicate 16 0\<rparr>)
        else if s = ''10.0.0.1/32''
          then Inr ([10, 0, 0, 1], \<lparr>IP = [10, 0, 0, 1], Mask = [255, 255, 255, 255]\<rparr>)
        else if s = ''192.168.0.0/16''
          then Inr ([192, 168, 0, 0], \<lparr>IP = [192, 168, 0, 0], Mask = [255, 255, 0, 0]\<rparr>)
        else Inl (ParseError ''CIDR address'' s))\<rparr>"


section \<open>The wrapped cache, from the specification\<close>

text \<open>
  Modelled from the spec: package \<^verbatim>\<open>github.com/anacrolix/dms/rrcache\<close> is a dependency
  and not among the sources. Section 4.1 of the specification gives its contract: a
  mapping from keys to entries with a size each, under a capacity fixed at construction;
  \<^verbatim>\<open>Set\<close> inserts the entry and then, while the total size exceeds the capacity, evicts
  existing entries picked at random until the total is within the capacity or no further
  eviction is possible (a single oversized entry is tolerated, never the one just set is
  evicted); \<^verbatim>\<open>Items\<close> is a snapshot of all entries in no particular order. The table lists
  the entries with distinct keys; \<open>rnd\<close> is the supply of random numbers and \<open>drawn\<close> how
  many of them were used.
\<close>

record ('k, 'v) RRCache =
  maxSize :: int
  table :: "('k \<times> 'v \<times> int) list"
  rnd :: "nat \<Rightarrow> nat"
  drawn :: nat

definition rr_New :: "(nat \<Rightarrow> nat) \<Rightarrow> int \<Rightarrow> ('k, 'v) RRCache" where
  "rr_New random cap = \<lparr>maxSize = cap, table = [], rnd = random, drawn = 0\<rparr>"

definition rr_total :: "('k, 'v) RRCache \<Rightarrow> int" where
  "rr_total c = sum_list (map (\<lambda>entry. snd (snd entry)) (table c))"

definition rr_put :: "'k \<Rightarrow> 'v \<Rightarrow> int \<Rightarrow> ('k \<times> 'v \<times> int) list \<Rightarrow> ('k \<times> 'v \<times> int) list" where
  "rr_put key val sz tbl =
     (if key \<in> fst ` set tbl
      then map (\<lambda>entry. if fst entry = key then (key, val, sz) else entry) tbl
      else tbl @ [(key, val, sz)])"

text \<open>Modelled from the spec: eviction after an insertion of \<open>key\<close>. While the total
  exceeds the capacity and there is an entry other than that of \<open>key\<close>, one of those picked
  by the next random number is removed.\<close>

function rr_evict :: "'k \<Rightarrow> ('k, 'v) RRCache \<Rightarrow> ('k, 'v) RRCache" where
  "rr_evict key c =
     (if rr_total c \<le> maxSize c \<or> filter (\<lambda>entry. fst entry \<noteq> key) (table c) = [] then c
      else rr_evict key
        (c\<lparr>table :=
             filter (\<lambda>entry. fst entry \<noteq>
                 fst (filter (\<lambda>entry. fst entry \<noteq> key) (table c) !
                   (rnd c (drawn c) mod length (filter (\<lambda>entry. fst entry \<noteq> key) (table c)))))
               (table c),
           drawn := Suc (drawn c)\<rparr>))"
  by pat_completeness auto
termination
proof (relation "measure (\<lambda>(key, c). length (table c))")
  show "wf (measure (\<lambda>(key, c). length (table c)))"
    by simp
next
  fix key :: 'k and c :: "('k, 'v) RRCache"
  let ?others = "filter (\<lambda>entry. fst entry \<noteq> key) (table c)"
  let ?victim = "?others ! (rnd c (drawn c) mod length ?others)"
  assume "\<not> (rr_total c \<le> maxSize c \<or> ?others = [])"
  then have "?others \<noteq> []"
    by simp
  then have "rnd c (drawn c) mod length ?others < length ?others"
    by simp
  then have "?victim \<in> set ?others"
    by (rule nth_mem)
  then have "?victim \<in> set (table c)"
    by (metis filter_is_subset subsetD)
  then have "length (filter (\<lambda>entry. fst entry \<noteq> fst ?victim) (table c)) < length (table c)"
    by (rule length_filter_less [where x = ?victim]) simp
  then show "((key, c\<lparr>table := filter (\<lambda>entry. fst entry \<noteq> fst ?victim) (table c),
                     drawn := Suc (drawn c)\<rparr>), key, c)
      \<in> measure (\<lambda>(key, c). length (table c))"
    by simp
qed

text \<open>Modelled from the spec: \<^verbatim>\<open>Set\<close>, \<^verbatim>\<open>Get\<close> and \<^verbatim>\<open>Items\<close> of the wrapped cache.\<close>

definition rr_Set :: "'k \<Rightarrow> 'v \<Rightarrow> int \<Rightarrow> ('k, 'v) RRCache \<Rightarrow> ('k, 'v) RRCache" where
  "rr_Set key val sz c = rr_evict key (c\<lparr>table := rr_put key val sz (table c)\<rparr>)"

definition rr_Get :: "('k, 'v) RRCache \<Rightarrow> 'k \<Rightarrow> 'v option" where
  "rr_Get c key = map_option fst (map_of (table c) key)"

text \<open>\<open>order\<close> is the order in which the snapshot lists the entries.\<close>

definition rr_Items ::
  "(('k \<times> 'v) list \<Rightarrow> ('k \<times> 'v) list) \<Rightarrow> ('k, 'v) RRCache \<Rightarrow> ('k \<times> 'v) list" where
  "rr_Items order c = order (map (\<lambda>entry. (fst entry, fst (snd entry))) (table c))"

definition rr_cache ::
  "(nat \<Rightarrow> nat) \<Rightarrow> (('k \<times> 'v) list \<Rightarrow> ('k \<times> 'v) list) \<Rightarrow> (('k, 'v) RRCache, 'k, 'v) rrcache" where
  "rr_cache random order =
     \<lparr>c_New = rr_New random, c_Set = rr_Set, c_Get = rr_Get, c_Items = rr_Items order\<rparr>"




section \<open>A scene with the types of the dms library\<close>

text \<open>
  The keys and values the dms library puts into the probe cache: a key is a
  \<^verbatim>\<open>ffmpegInfoCacheKey\<close> (the path and its modification time), a value a \<^verbatim>\<open>*ffprobe.Info\<close>,
  \<open>None\<close> for the \<^verbatim>\<open>nil\<close> pointer the library stores when a probe failed. The maps of an
  \<^verbatim>\<open>Info\<close> hold strings here, \<open>None\<close> for a \<^verbatim>\<open>nil\<close> map or slice.
\<close>

record ffmpegInfoCacheKey =
  Path :: string
  ModTime :: int

record ffprobe_Info =
  Format :: "(string \<times> string) list option"
  Streams :: "(string \<times> string) list list option"

definition key_a :: ffmpegInfoCacheKey where
  "key_a = \<lparr>Path = ''/m/a.mkv'', ModTime = 1\<rparr>"

definition key_b :: ffmpegInfoCacheKey where
  "key_b = \<lparr>Path = ''/m/b.mkv'', ModTime = 2\<rparr>"

definition info_b :: ffprobe_Info where
  "info_b = \<lparr>Format = Some [(''duration'', ''1.5'')], Streams = None\<rparr>"

definition text_key_a :: string where
  "text_key_a = ''{\"Path\":\"/m/a.mkv\",\"ModTime\":1}''"

definition text_key_b :: string where
  "text_key_b = ''{\"Path\":\"/m/b.mkv\",\"ModTime\":2}''"

definition text_info_b :: string where
  "text_info_b = ''{\"Format\":{\"duration\":\"1.5\"},\"Streams\":null}''"

text \<open>The snapshot of the two entries, \<open>key_b\<close> first, as \<^verbatim>\<open>Encoder.Encode\<close> writes it: one
  line, ended by a newline.\<close>

definition text_b_a :: string where
  "text_b_a =
     ''[{\"Key\":'' @ text_key_b @ '',\"Value\":'' @ text_info_b @ ''},{\"Key\":'' @ text_key_a @
     '',\"Value\":null}]'' @ [CHR 0x0A]"

text \<open>What \<^verbatim>\<open>encoding/json\<close> does on the entries of this scene; it is asked nothing else.\<close>

definition probe_json :: "(ffmpegInfoCacheKey, ffprobe_Info option) json" where
  "probe_json =
     \<lparr>json_Marshal = (\<lambda>x.
        if x = Inl key_a then Inr text_key_a
        else if x = Inl key_b then Inr text_key_b
        else if x = Inr None then Inr ''null''
        else if x = Inr (Some info_b) then Inr text_info_b
        else Inl (JsonError ''not of this scene'')),
      encode_items = (\<lambda>items.
        if items = [(key_b, Some info_b), (key_a, None)] then Inr text_b_a
        else Inl (JsonError ''not of this scene'')),
      decode_items = (\<lambda>b.
        if b = text_b_a then Inr [(key_b, Some info_b), (key_a, None)]
        else Inl (JsonError ''not of this scene''))\<rparr>"

definition probe_rr ::
  "((ffmpegInfoCacheKey, ffprobe_Info option) RRCache, ffmpegInfoCacheKey, ffprobe_Info option) rrcache" where
  "probe_rr = rr_cache (\<lambda>n. 0) rev"

definition probe_world :: "(ffmpegInfoCacheKey + ffprobe_Info option) world" where
  "probe_world = \<lparr>files = Map.empty, calls = [], logged = []\<rparr>"


section \<open>Facts about the system calls\<close>

lemma called_simps [simp]:
  "files (called sc w) = files w"
  "calls (called sc w) = calls w @ [sc]"
  "logged (called sc w) = logged w"
  by (simp_all add: called_def)

lemma log_Print_simps [simp]:
  "files (log_Print l w) = files w"
  "calls (log_Print l w) = calls w"
  "logged (log_Print l w) = logged w @ [l]"
  by (simp_all add: log_Print_def)

lemma os_Remove_calls:
  "calls (snd (os_Remove e name w)) = calls w @ [Remove name]"
  by (simp add: os_Remove_def split: option.splits)

lemma os_Remove_gone:
  "fault e (Remove name) = None \<Longrightarrow> files (snd (os_Remove e name w)) name = None"
  by (simp add: os_Remove_def split: option.splits)

lemma os_Remove_other:
  "p \<noteq> name \<Longrightarrow> files (snd (os_Remove e name w)) p = files w p"
  by (simp add: os_Remove_def split: option.splits)

lemma os_Remove_absent:
  "files w name = None \<Longrightarrow>
     os_Remove e name w = (Some (PathError ''remove'' name (Errno ENOENT)), called (Remove name) w)"
  by (simp add: os_Remove_def)

text \<open>Whatever the environment, \<^verbatim>\<open>os.Remove\<close> does not return the bare sentinel.\<close>

lemma os_Remove_not_sentinel: "fst (os_Remove e name w) \<noteq> Some ErrNotExist"
  by (simp add: os_Remove_def split: option.splits)

lemma os_CreateTemp_Inr:
  assumes "os_CreateTemp e dir pat w = (Inr f, w1)"
  shows "f = temp_file e dir pat" and "files w f = None" and "files w1 = (files w)(f \<mapsto> [])"
    and "calls w1 = calls w @ [CreateTemp dir pat]" and "fault e (CreateTemp dir pat) = None"
  using assms by (auto simp: os_CreateTemp_def split: option.splits)

lemma os_CreateTemp_Inl:
  assumes "os_CreateTemp e dir pat w = (Inl err, w1)"
  shows "files w1 = files w" and "calls w1 = calls w @ [CreateTemp dir pat]"
  using assms by (auto simp: os_CreateTemp_def split: option.splits)

lemma Encoder_Encode_other:
  assumes "Encoder_Encode js e f items w1 = (r, w2)" and "p \<noteq> f"
  shows "files w2 p = files w1 p"
  using assms by (auto simp: Encoder_Encode_def split: sum.splits option.splits)

lemma Encoder_Encode_None:
  assumes "Encoder_Encode js e f items w1 = (None, w2)"
  shows "\<exists>b. encode_items js items = Inr b \<and> fault e (Write f) = None \<and>
           files w2 = (files w1)(f \<mapsto> (case files w1 f of None \<Rightarrow> [] | Some old \<Rightarrow> old) @ b) \<and>
           calls w2 = calls w1 @ [Write f]"
  using assms by (auto simp: Encoder_Encode_def split: sum.splits option.splits)

lemma os_Rename_Some:
  "os_Rename e old new w = (Some err, w') \<Longrightarrow> files w' = files w"
  by (auto simp: os_Rename_def split: option.splits)


lemmas demo_defs = demo_env_def demo_world_def demo_json_def recorder_def slash_Dir_def
  slash_Base_def cache_file_def cache_tmp_def one_item_def no_fault_def full_disk_def
  rename_denied_def

lemmas os_defs = os_CreateTemp_def os_Remove_def os_Rename_def os_Open_def Encoder_Encode_def
  Decoder_Decode_def file_Close_def called_def log_Print_def

section \<open>Saving the snapshot\<close>

lemma save_created_failed:
  assumes "os_CreateTemp e (filepath_Dir e path) (filepath_Base e path) w = (Inl err, w1)"
  shows "save e js ops path c w = (Some err, w1)"
  using assms by (simp add: save_def)

lemma save_encode_failed:
  assumes "os_CreateTemp e (filepath_Dir e path) (filepath_Base e path) w = (Inr f, w1)"
    and "Encoder_Encode js e f (c_Items ops c) w1 = (Some err, w2)"
  shows "save e js ops path c w = (Some err, snd (os_Remove e f (file_Close f w2)))"
  using assms by (simp add: save_def)

lemma save_written:
  assumes "os_CreateTemp e (filepath_Dir e path) (filepath_Base e path) w = (Inr f, w1)"
    and "Encoder_Encode js e f (c_Items ops c) w1 = (None, w2)"
  shows "save e js ops path c w = save_replace e f path (length (c_Items ops c)) (file_Close f w2)"
  using assms by (simp add: save_def save_replace_def)

lemma save_replace_error:
  assumes "fst (save_replace e f path n w) = Some err"
  shows "last (calls (snd (save_replace e f path n w))) = Remove f"
    and "fault e (Remove f) = None \<Longrightarrow> files (snd (save_replace e f path n w)) f = None"
  using assms
  by (auto simp: save_replace_def os_Remove_calls os_Remove_gone
      split: prod.splits option.splits if_splits)

text \<open>
  Claim C9. Whenever \<open>save\<close> has created its temporary file \<open>f\<close> and returns an error,
  whichever step the error comes from (encoding or writing, the removal of the destination
  on Windows, the rename), the last system call it makes is \<^verbatim>\<open>os.Remove\<close> of \<open>f\<close>, and
  unless the operating system fails that very call, \<open>f\<close> is no file any more when \<open>save\<close>
  returns. (The code discards the result of this \<^verbatim>\<open>os.Remove\<close>.)
\<close>

theorem save_error_removes_temp:
  assumes created: "os_CreateTemp e (filepath_Dir e path) (filepath_Base e path) w = (Inr f, w1)"
    and failed: "fst (save e js ops path c w) = Some err"
  shows "last (calls (snd (save e js ops path c w))) = Remove f \<and>
         (fault e (Remove f) = None \<longrightarrow> files (snd (save e js ops path c w)) f = None)"
proof (cases "Encoder_Encode js e f (c_Items ops c) w1")
  case (Pair r w2)
  show ?thesis
  proof (cases r)
    case None
    with created Pair failed show ?thesis
      by (simp add: save_written save_replace_error)
  next
    case (Some err')
    with created Pair show ?thesis
      by (simp add: save_encode_failed os_Remove_calls os_Remove_gone)
  qed
qed

text \<open>The rename is refused on Linux: \<open>save\<close> returns the \<^verbatim>\<open>*LinkError\<close> and the temporary
  file is gone.\<close>

theorem save_error_removes_temp_witness:
  "fst (os_CreateTemp (demo_env ''linux'' rename_denied)
          (filepath_Dir (demo_env ''linux'' rename_denied) cache_file)
          (filepath_Base (demo_env ''linux'' rename_denied) cache_file)
          (demo_world [cache_file \<mapsto> ''null''])) = Inr cache_tmp \<and>
   fst (save (demo_env ''linux'' rename_denied) demo_json recorder cache_file one_item
          (demo_world [cache_file \<mapsto> ''null''])) =
     Some (LinkError ''rename'' cache_tmp cache_file (Errno 13)) \<and>
   last (calls (snd (save (demo_env ''linux'' rename_denied) demo_json recorder cache_file one_item
          (demo_world [cache_file \<mapsto> ''null''])))) = Remove cache_tmp \<and>
   files (snd (save (demo_env ''linux'' rename_denied) demo_json recorder cache_file one_item
          (demo_world [cache_file \<mapsto> ''null'']))) cache_tmp = None"
proof -
  let ?e = "demo_env ''linux'' rename_denied"
  let ?w = "demo_world [cache_file \<mapsto> ''null'']"
  let ?ct = "os_CreateTemp ?e (filepath_Dir ?e cache_file) (filepath_Base ?e cache_file) ?w"
  have h1: "?ct = (Inr cache_tmp, snd ?ct)"
    by (simp add: demo_defs os_defs)
  have h2: "fst (save ?e demo_json recorder cache_file one_item ?w) =
      Some (LinkError ''rename'' cache_tmp cache_file (Errno 13))"
    by (simp add: save_def demo_defs os_defs)
  have h3: "fault ?e (Remove cache_tmp) = None"
    by (simp add: demo_defs)
  have h1': "fst ?ct = Inr cache_tmp"
    using h1 by (metis fst_conv)
  from save_error_removes_temp [OF h1 h2] h1' h2 h3 show ?thesis
    by simp
qed

text \<open>
  Claim C3. Let the name \<^verbatim>\<open>os.CreateTemp\<close> picks differ from \<open>path\<close> (it appends a random
  string to the base name of \<open>path\<close>). If the temporary file \<open>f\<close> was created and encoding
  the items or writing them to \<open>f\<close> fails with \<open>err\<close>, then \<open>save\<close> returns \<open>err\<close>, the
  file table at \<open>path\<close> is what it was, the last system call is \<^verbatim>\<open>os.Remove\<close> of \<open>f\<close>, and
  \<open>f\<close> is gone unless that call itself is failed by the operating system. And in every
  execution: if the file table at \<open>path\<close> differs after \<open>save\<close>, then the temporary file
  was created, the items were encoded to some text \<open>b\<close> and written without failure, and
  the temporary file held exactly \<open>b\<close>.
\<close>

theorem save_encode_failure:
  assumes tmp: "temp_file e (filepath_Dir e path) (filepath_Base e path) \<noteq> path"
  shows "(\<forall>f w1 err w2.
            os_CreateTemp e (filepath_Dir e path) (filepath_Base e path) w = (Inr f, w1) \<longrightarrow>
            Encoder_Encode js e f (c_Items ops c) w1 = (Some err, w2) \<longrightarrow>
              fst (save e js ops path c w) = Some err \<and>
              files (snd (save e js ops path c w)) path = files w path \<and>
              last (calls (snd (save e js ops path c w))) = Remove f \<and>
              (fault e (Remove f) = None \<longrightarrow> files (snd (save e js ops path c w)) f = None)) \<and>
         (files (snd (save e js ops path c w)) path \<noteq> files w path \<longrightarrow>
            (\<exists>f w1 w2 b.
               os_CreateTemp e (filepath_Dir e path) (filepath_Base e path) w = (Inr f, w1) \<and>
               Encoder_Encode js e f (c_Items ops c) w1 = (None, w2) \<and>
               encode_items js (c_Items ops c) = Inr b \<and> fault e (Write f) = None \<and>
               files w2 f = Some b))"
proof (intro conjI allI impI)
  fix f w1 err w2
  assume created: "os_CreateTemp e (filepath_Dir e path) (filepath_Base e path) w = (Inr f, w1)"
    and enc: "Encoder_Encode js e f (c_Items ops c) w1 = (Some err, w2)"
  have f: "f \<noteq> path" "files w1 = (files w)(f \<mapsto> [])"
    using os_CreateTemp_Inr [OF created] tmp by simp_all
  have eq: "save e js ops path c w = (Some err, snd (os_Remove e f (file_Close f w2)))"
    using created enc by (rule save_encode_failed)
  have "files w2 path = files w1 path"
    using enc f(1) by (rule Encoder_Encode_other [OF _ not_sym])
  then show "files (snd (save e js ops path c w)) path = files w path"
    using f by (simp add: eq os_Remove_other file_Close_def)
  show "fst (save e js ops path c w) = Some err"
    by (simp add: eq)
  show "last (calls (snd (save e js ops path c w))) = Remove f"
    by (simp add: eq os_Remove_calls)
  show "files (snd (save e js ops path c w)) f = None" if "fault e (Remove f) = None"
    using that by (simp add: eq os_Remove_gone)
next
  assume changed: "files (snd (save e js ops path c w)) path \<noteq> files w path"
  show "\<exists>f w1 w2 b.
          os_CreateTemp e (filepath_Dir e path) (filepath_Base e path) w = (Inr f, w1) \<and>
          Encoder_Encode js e f (c_Items ops c) w1 = (None, w2) \<and>
          encode_items js (c_Items ops c) = Inr b \<and> fault e (Write f) = None \<and>
          files w2 f = Some b"
  proof (cases "os_CreateTemp e (filepath_Dir e path) (filepath_Base e path) w")
    case (Pair r w1)
    show ?thesis
    proof (cases r)
      case (Inl err)
      with Pair changed show ?thesis
        by (simp add: save_created_failed os_CreateTemp_Inl)
    next
      case (Inr f)
      with Pair have created:
        "os_CreateTemp e (filepath_Dir e path) (filepath_Base e path) w = (Inr f, w1)" by simp
      have f: "f \<noteq> path" "files w1 = (files w)(f \<mapsto> [])"
        using os_CreateTemp_Inr [OF created] tmp by simp_all
      obtain r2 w2 where enc: "Encoder_Encode js e f (c_Items ops c) w1 = (r2, w2)"
        by (cases "Encoder_Encode js e f (c_Items ops c) w1")
      have w2: "files w2 path = files w1 path"
        using enc f(1) by (rule Encoder_Encode_other [OF _ not_sym])
      show ?thesis
      proof (cases r2)
        case (Some err)
        with created enc changed w2 f show ?thesis
          by (simp add: save_encode_failed os_Remove_other file_Close_def)
      next
        case None
        with enc have enc': "Encoder_Encode js e f (c_Items ops c) w1 = (None, w2)" by simp
        from Encoder_Encode_None [OF enc'] f(2) created enc' show ?thesis
          by auto
      qed
    qed
  qed
qed

text \<open>The disk is full when the items are written: \<open>save\<close> returns the write error, the
  snapshot that was at \<open>cache_file\<close> is still there and the temporary file is gone.\<close>

theorem save_encode_failure_witness:
  "temp_file (demo_env ''linux'' full_disk) (filepath_Dir (demo_env ''linux'' full_disk) cache_file)
     (filepath_Base (demo_env ''linux'' full_disk) cache_file) \<noteq> cache_file \<and>
   fst (os_CreateTemp (demo_env ''linux'' full_disk) (filepath_Dir (demo_env ''linux'' full_disk) cache_file)
     (filepath_Base (demo_env ''linux'' full_disk) cache_file) (demo_world [cache_file \<mapsto> ''null''])) =
     Inr cache_tmp \<and>
   fst (save (demo_env ''linux'' full_disk) demo_json recorder cache_file one_item
         (demo_world [cache_file \<mapsto> ''null''])) = Some (PathError ''write'' cache_tmp (Errno 28)) \<and>
   files (snd (save (demo_env ''linux'' full_disk) demo_json recorder cache_file one_item
         (demo_world [cache_file \<mapsto> ''null'']))) cache_file = Some ''null'' \<and>
   last (calls (snd (save (demo_env ''linux'' full_disk) demo_json recorder cache_file one_item
         (demo_world [cache_file \<mapsto> ''null''])))) = Remove cache_tmp \<and>
   files (snd (save (demo_env ''linux'' full_disk) demo_json recorder cache_file one_item
         (demo_world [cache_file \<mapsto> ''null'']))) cache_tmp = None"
proof -
  let ?e = "demo_env ''linux'' full_disk"
  let ?w = "demo_world [cache_file \<mapsto> ''null'']"
  let ?ct = "os_CreateTemp ?e (filepath_Dir ?e cache_file) (filepath_Base ?e cache_file) ?w"
  have h1: "temp_file ?e (filepath_Dir ?e cache_file) (filepath_Base ?e cache_file) \<noteq> cache_file"
    by (simp add: demo_defs)
  have h2: "?ct = (Inr cache_tmp, snd ?ct)"
    by (simp add: demo_defs os_defs)
  have h3: "Encoder_Encode demo_json ?e cache_tmp (c_Items recorder one_item) (snd ?ct) =
      (Some (PathError ''write'' cache_tmp (Errno 28)),
       snd (Encoder_Encode demo_json ?e cache_tmp (c_Items recorder one_item) (snd ?ct)))"
    by (simp add: demo_defs os_defs)
  have h4: "fault ?e (Remove cache_tmp) = None"
    by (simp add: demo_defs)
  have w: "files ?w cache_file = Some ''null''"
    by (simp add: demo_defs)
  have h2': "fst ?ct = Inr cache_tmp"
    using h2 by (metis fst_conv)
  note save_encode_failure [OF h1, where w = ?w and js = demo_json and ops = recorder
      and c = one_item, THEN conjunct1, rule_format, OF h2 h3]
  with h1 h2' h4 w show ?thesis
    by simp
qed

text \<open>
  Claim C4, at the input where the code departs from it. On Windows, when no file is at
  \<open>path\<close> (the first save), the temporary file \<open>f\<close> is created and written, and then
  \<^verbatim>\<open>os.Remove(path)\<close> returns a \<^verbatim>\<open>*PathError\<close> wrapping the error number. The comparison
  \<^verbatim>\<open>err == os.ErrNotExist\<close> on line 273 is false for it (as for every result of
  \<^verbatim>\<open>os.Remove\<close>, see \<open>os_Remove_not_sentinel\<close>), so \<open>save\<close> returns that error; the
  system calls are exactly the five listed, with no rename among them, and there is still
  no file at \<open>path\<close>.
\<close>

theorem save_windows_missing_destination:
  assumes win: "GOOS e = ''windows''"
    and absent: "files w path = None"
    and created: "os_CreateTemp e (filepath_Dir e path) (filepath_Base e path) w = (Inr f, w1)"
    and other: "f \<noteq> path"
    and written: "Encoder_Encode js e f (c_Items ops c) w1 = (None, w2)"
  shows "fst (save e js ops path c w) = Some (PathError ''remove'' path (Errno ENOENT)) \<and>
         calls (snd (save e js ops path c w)) =
           calls w @ [CreateTemp (filepath_Dir e path) (filepath_Base e path), Write f, Close f,
                      Remove path, Remove f] \<and>
         files (snd (save e js ops path c w)) path = None"
proof -
  from written obtain b where w2:
    "files w2 = (files w1)(f \<mapsto> (case files w1 f of None \<Rightarrow> [] | Some old \<Rightarrow> old) @ b)"
    "calls w2 = calls w1 @ [Write f]"
    using Encoder_Encode_None by blast
  have w1: "files w1 = (files w)(f \<mapsto> [])"
    "calls w1 = calls w @ [CreateTemp (filepath_Dir e path) (filepath_Base e path)]"
    using os_CreateTemp_Inr [OF created] by simp_all
  have gone: "files (file_Close f w2) path = None"
    using absent other by (simp add: file_Close_def w1 w2)
  have "save e js ops path c w = save_replace e f path (length (c_Items ops c)) (file_Close f w2)"
    using created written by (rule save_written)
  also have "\<dots> = (Some (PathError ''remove'' path (Errno ENOENT)),
                    snd (os_Remove e f (called (Remove path) (file_Close f w2))))"
    using win by (simp add: save_replace_def os_Remove_absent [OF gone])
  finally have eq: "save e js ops path c w =
      (Some (PathError ''remove'' path (Errno ENOENT)),
       snd (os_Remove e f (called (Remove path) (file_Close f w2))))" .
  show ?thesis
    using absent other
    by (simp add: eq os_Remove_calls os_Remove_other file_Close_def w1 w2)
qed

text \<open>The first save on Windows, with no failure injected by the operating system.\<close>

theorem save_windows_missing_destination_witness:
  "GOOS (demo_env ''windows'' no_fault) = ''windows'' \<and>
   files (demo_world Map.empty) cache_file = None \<and>
   fst (save (demo_env ''windows'' no_fault) demo_json recorder cache_file one_item
         (demo_world Map.empty)) = Some (PathError ''remove'' cache_file (Errno ENOENT)) \<and>
   calls (snd (save (demo_env ''windows'' no_fault) demo_json recorder cache_file one_item
         (demo_world Map.empty))) =
     [CreateTemp ''/home/u'' ''.dms-ffprobe-cache'', Write cache_tmp, Close cache_tmp,
      Remove cache_file, Remove cache_tmp] \<and>
   files (snd (save (demo_env ''windows'' no_fault) demo_json recorder cache_file one_item
         (demo_world Map.empty))) cache_file = None"
proof -
  let ?e = "demo_env ''windows'' no_fault"
  let ?w = "demo_world Map.empty :: (string + string) world"
  let ?ct = "os_CreateTemp ?e (filepath_Dir ?e cache_file) (filepath_Base ?e cache_file) ?w"
  have h1: "GOOS ?e = ''windows''"
    by (simp add: demo_defs)
  have h2: "files ?w cache_file = None"
    by (simp add: demo_defs)
  have h3: "?ct = (Inr cache_tmp, snd ?ct)"
    by (simp add: demo_defs os_defs)
  have h4: "cache_tmp \<noteq> cache_file"
    by (simp add: demo_defs)
  have h5: "Encoder_Encode demo_json ?e cache_tmp (c_Items recorder one_item) (snd ?ct) =
      (None, snd (Encoder_Encode demo_json ?e cache_tmp (c_Items recorder one_item) (snd ?ct)))"
    by (simp add: demo_defs os_defs)
  have dir: "filepath_Dir ?e cache_file = ''/home/u''"
    "filepath_Base ?e cache_file = ''.dms-ffprobe-cache''" "calls ?w = []"
    by (simp_all add: demo_defs)
  from save_windows_missing_destination [OF h1 h2 h3 h4 h5] h1 h2 dir show ?thesis
    by simp
qed

section \<open>Setting an entry and loading the snapshot\<close>

lemma int64_id: "- (2 ^ 63) \<le> a \<Longrightarrow> a < 2 ^ 63 \<Longrightarrow> int64 a = a"
  by (simp add: int64_def)

lemma wrap_add:
  fixes x y h m :: int
  shows "(x mod m + y mod m - h) mod m = (x + y - h) mod m"
proof -
  have "(x mod m + y mod m - h) mod m = ((x mod m + y mod m) mod m - h) mod m"
    by (simp only: mod_diff_left_eq)
  also have "\<dots> = ((x + y) mod m - h) mod m"
    by (simp only: mod_add_eq)
  also have "\<dots> = (x + y - h) mod m"
    by (simp only: mod_diff_left_eq)
  finally show ?thesis .
qed

lemma int64_add: "int64 (int64 a + int64 b) = int64 (a + b)"
proof -
  have "int64 a + int64 b + 2 ^ 63 = (a + 2 ^ 63) mod 2 ^ 64 + (b + 2 ^ 63) mod 2 ^ 64 - 2 ^ 63"
    unfolding int64_def by linarith
  then have "(int64 a + int64 b + 2 ^ 63) mod 2 ^ 64 = ((a + 2 ^ 63) + (b + 2 ^ 63) - 2 ^ 63) mod 2 ^ 64"
    by (simp only: wrap_add)
  also have "(a + 2 ^ 63) + (b + 2 ^ 63) - 2 ^ 63 = a + b + (2 ^ 63 :: int)"
    by linarith
  finally show ?thesis
    unfolding int64_def [of "int64 a + int64 b"] int64_def [of "a + b"] by (rule arg_cong)
qed

lemma int64_0: "int64 0 = 0"
  by (simp add: int64_def)

lemma int64_idem: "int64 (int64 a) = int64 a"
  using int64_add [of a 0] by (simp add: int64_0)

lemma contribution_nonneg: "0 \<le> contribution js x"
  by (simp add: contribution_def split: sum.splits)

lemma Set_sizes_two:
  "Set_sizes js [x, y] 0 w =
     (int64 (contribution js x + contribution js y),
      w\<lparr>logged := logged w @ marshal_failures js [x, y]\<rparr>)"
  by (cases "json_Marshal js x"; cases "json_Marshal js y")
    (simp_all add: contribution_def marshal_failures_def log_Print_def int64_0 int64_idem int64_add)

text \<open>
  Claim C6. \<^verbatim>\<open>Set\<close> always calls \<^verbatim>\<open>Set\<close> of the wrapped cache with the key and the value it
  was given. The size it passes is the \<^verbatim>\<open>int64\<close> sum of the contributions of key and
  value, where a component whose \<^verbatim>\<open>json.Marshal\<close> fails contributes zero and the other
  its serialized byte length; the log gains one line for each failed component, key
  first. Below \<open>2 ^ 63\<close> the \<^verbatim>\<open>int64\<close> sum is the sum itself.
\<close>

theorem Set_marshal_failure:
  "fFprobeCache_Set js ops key val c w =
     (c_Set ops key val (int64 (contribution js (Inl key) + contribution js (Inr val))) c,
      w\<lparr>logged := logged w @ marshal_failures js [Inl key, Inr val]\<rparr>) \<and>
   (contribution js (Inl key) + contribution js (Inr val) < 2 ^ 63 \<longrightarrow>
      int64 (contribution js (Inl key) + contribution js (Inr val)) =
        contribution js (Inl key) + contribution js (Inr val))"
proof -
  have "0 \<le> contribution js (Inl key)" "0 \<le> contribution js (Inr val)"
    by (rule contribution_nonneg)+
  then show ?thesis
    by (simp add: fFprobeCache_Set_def Set_sizes_two int64_id del: Set_sizes.simps)
qed

text \<open>The value \<open>NaN\<close> cannot be marshalled: the entry is still set, with the seven bytes
  of the key as its size, and the failure is logged.\<close>

theorem Set_marshal_failure_witness:
  "contribution demo_json (Inl ''a.mkv'') + contribution demo_json (Inr ''NaN'') < 2 ^ 63 \<and>
   fFprobeCache_Set demo_json recorder ''a.mkv'' ''NaN'' [] (demo_world Map.empty) =
     ([(''a.mkv'', ''NaN'', 7)],
      \<lparr>files = Map.empty, calls = [],
       logged = [LogMarshal (Inr ''NaN'') (JsonError ''unsupported value'')]\<rparr>)"
proof -
  have c: "contribution demo_json (Inl ''a.mkv'') = 7" "contribution demo_json (Inr ''NaN'') = 0"
    by (simp_all add: contribution_def demo_defs)
  have m: "marshal_failures demo_json [Inl ''a.mkv'', Inr ''NaN''] =
      [LogMarshal (Inr ''NaN'') (JsonError ''unsupported value'')]"
    by (simp add: marshal_failures_def demo_defs)
  from Set_marshal_failure [of demo_json recorder "''a.mkv''" "''NaN''" "[]" "demo_world Map.empty"]
  show ?thesis
    by (simp add: c m int64_id demo_world_def recorder_def)
qed

lemma fFprobeCache_Set_cache:
  "fst (fFprobeCache_Set js ops key val c w) = c_Set ops key val (recomputed js (key, val)) c"
  by (simp add: fFprobeCache_Set_def Set_sizes_two recomputed_def del: Set_sizes.simps)

lemma fFprobeCache_Set_world:
  "files (snd (fFprobeCache_Set js ops key val c w)) = files w"
  "calls (snd (fFprobeCache_Set js ops key val c w)) = calls w"
  by (simp_all add: fFprobeCache_Set_def Set_sizes_two del: Set_sizes.simps)

lemma load_items_cache:
  "fst (load_items js ops items c w) =
     foldl (\<lambda>c item. c_Set ops (fst item) (snd item) (recomputed js item) c) c items"
proof (induction items arbitrary: c w)
  case Nil
  show ?case by simp
next
  case (Cons item items)
  obtain c' w' where s: "fFprobeCache_Set js ops (fst item) (snd item) c w = (c', w')"
    by (cases "fFprobeCache_Set js ops (fst item) (snd item) c w")
  have "c' = c_Set ops (fst item) (snd item) (recomputed js item) c"
    using fFprobeCache_Set_cache [of js ops "fst item" "snd item" c w] s by simp
  then show ?case
    using Cons.IH [of c' w'] s by simp
qed

lemma load_items_world:
  "files (snd (load_items js ops items c w)) = files w \<and>
   calls (snd (load_items js ops items c w)) = calls w"
proof (induction items arbitrary: c w)
  case Nil
  show ?case by simp
next
  case (Cons item items)
  obtain c' w' where s: "fFprobeCache_Set js ops (fst item) (snd item) c w = (c', w')"
    by (cases "fFprobeCache_Set js ops (fst item) (snd item) c w")
  then show ?case
    using Cons.IH [of c' w'] fFprobeCache_Set_world [of js ops "fst item" "snd item" c w]
    by simp
qed

lemma load_missing:
  assumes "files w path = None"
  shows "load e js ops path c w =
    (Some (PathError ''open'' path (Errno ENOENT)), c, called (Open path) w)"
  using assms by (simp add: load_def os_Open_def)

lemma load_decoded:
  assumes "files w path = Some content" and "fault e (Open path) = None"
    and "fault e (Read path) = None" and "decode_items js content = Inr items"
  shows "fst (load e js ops path c w) = None"
    and "fst (snd (load e js ops path c w)) =
      fst (load_items js ops items c (called (Read path) (called (Open path) w)))"
    and "files (snd (snd (load e js ops path c w))) = files w"
    and "calls (snd (snd (load e js ops path c w))) = calls w @ [Open path, Read path, Close path]"
  using assms load_items_world [of js ops items c "called (Read path) (called (Open path) w)"]
  by (auto simp: load_def os_Open_def Decoder_Decode_def file_Close_def split: prod.splits)

text \<open>
  Claim C8. When the file at \<open>path\<close> can be opened and read and its text decodes to the
  records \<open>items\<close>, \<open>load\<close> returns no error and the cache it leaves is the one obtained
  by calling \<^verbatim>\<open>Set\<close> of the probe cache on each record in order; each such call
  passes to the wrapped cache the size recomputed from the serialized byte lengths of that
  record's key and value (the decoded records carry no size).
\<close>

theorem load_reinserts_via_Set:
  assumes "files w path = Some content" and "fault e (Open path) = None"
    and "fault e (Read path) = None" and "decode_items js content = Inr items"
  shows "fst (load e js ops path c w) = None \<and>
         fst (snd (load e js ops path c w)) =
           foldl (\<lambda>c item. fst (fFprobeCache_Set js ops (fst item) (snd item) c w0)) c items \<and>
         fst (snd (load e js ops path c w)) =
           foldl (\<lambda>c item. c_Set ops (fst item) (snd item) (recomputed js item) c) c items"
  using load_decoded(1,2) [OF assms, of ops c]
  by (simp add: load_items_cache fFprobeCache_Set_cache)

text \<open>A snapshot with one record: the recording cache receives one \<^verbatim>\<open>Set\<close>, with size
  \<open>9\<close>, the seven bytes of the key and the two of the value.\<close>

theorem load_reinserts_via_Set_witness:
  "files (demo_world [cache_file \<mapsto> snapshot_text]) cache_file = Some snapshot_text \<and>
   fault (demo_env ''linux'' no_fault) (Open cache_file) = None \<and>
   fault (demo_env ''linux'' no_fault) (Read cache_file) = None \<and>
   decode_items demo_json snapshot_text = Inr [(''a.mkv'', ''{}'')] \<and>
   fst (load (demo_env ''linux'' no_fault) demo_json recorder cache_file []
         (demo_world [cache_file \<mapsto> snapshot_text])) = None \<and>
   fst (snd (load (demo_env ''linux'' no_fault) demo_json recorder cache_file []
         (demo_world [cache_file \<mapsto> snapshot_text]))) = [(''a.mkv'', ''{}'', 9)]"
proof -
  let ?e = "demo_env ''linux'' no_fault"
  let ?w = "demo_world [cache_file \<mapsto> snapshot_text]"
  have h1: "files ?w cache_file = Some snapshot_text"
    by (simp add: demo_world_def)
  have h2: "fault ?e (Open cache_file) = None" "fault ?e (Read cache_file) = None"
    by (simp_all add: demo_env_def no_fault_def)
  have h3: "decode_items demo_json snapshot_text = Inr [(''a.mkv'', ''{}'')]"
    by (simp add: demo_json_def snapshot_text_def)
  have r: "recomputed demo_json (''a.mkv'', ''{}'') = 9"
    by (simp add: recomputed_def contribution_def demo_json_def int64_id)
  note th = load_reinserts_via_Set [OF h1 h2 h3, where ops = recorder and c = "[]" and ?w0.0 = ?w]
  have "fst (snd (load ?e demo_json recorder cache_file [] ?w)) = [(''a.mkv'', ''{}'', 9)]"
    using th [THEN conjunct2, THEN conjunct2] by (simp add: r recorder_def)
  with th [THEN conjunct1] h1 h2 h3 show ?thesis
    by simp
qed

text \<open>
  Claim C1 as stated fails: \<open>load\<close> on a path that names no file returns the error of
  \<^verbatim>\<open>os.Open\<close>.
\<close>

theorem load_missing_file_counterexample:
  "files (demo_world Map.empty) cache_file = None \<and>
   fst (load (demo_env ''linux'' no_fault) demo_json recorder cache_file []
         (demo_world Map.empty)) = Some (PathError ''open'' cache_file (Errno ENOENT)) \<and>
   fst (load (demo_env ''linux'' no_fault) demo_json recorder cache_file []
         (demo_world Map.empty)) \<noteq> None"
  by (simp add: load_def os_Open_def demo_world_def)

text \<open>
  Claim C1, amended. On a path that names no file, \<open>load\<close> makes one system call, the
  failed \<^verbatim>\<open>os.Open\<close>, leaves the cache as it was (no \<^verbatim>\<open>Set\<close> is called, so a new cache
  stays as \<^verbatim>\<open>rrcache.New\<close> made it) and returns the \<^verbatim>\<open>*PathError\<close> of \<^verbatim>\<open>os.Open\<close>; \<open>runErr\<close>
  prints that error to the log and goes on with the new cache.
\<close>

theorem load_missing_file:
  assumes "files w path = None"
  shows "load e js ops path c w =
           (Some (PathError ''open'' path (Errno ENOENT)), c, called (Open path) w) \<and>
         runErr_load e js ops path w =
           (c_New ops 67108864,
            log_Print (LogErr (PathError ''open'' path (Errno ENOENT))) (called (Open path) w))"
  using assms by (simp add: load_missing runErr_load_def push_bit_eq_mult)

theorem load_missing_file_witness:
  "files (demo_world Map.empty) cache_file = None \<and>
   load (demo_env ''linux'' no_fault) demo_json recorder cache_file [] (demo_world Map.empty) =
     (Some (PathError ''open'' cache_file (Errno ENOENT)), [],
      \<lparr>files = Map.empty, calls = [Open cache_file], logged = []\<rparr>) \<and>
   runErr_load (demo_env ''linux'' no_fault) demo_json recorder cache_file (demo_world Map.empty) =
     ([], \<lparr>files = Map.empty, calls = [Open cache_file],
           logged = [LogErr (PathError ''open'' cache_file (Errno ENOENT))]\<rparr>)"
proof -
  have h: "files (demo_world Map.empty :: (string + string) world) cache_file = None"
    by (simp add: demo_world_def)
  from load_missing_file [OF h, of "demo_env ''linux'' no_fault" demo_json recorder "[]"] h
  show ?thesis
    by (simp add: demo_world_def recorder_def called_def log_Print_def)
qed

section \<open>Stop waits for the goroutine of Start\<close>

lemma did_simps [simp]:
  "stop_at (did h s) = stop_at s" "loop_at (did h s) = loop_at s"
  "quit_closed (did h s) = quit_closed s" "wg (did h s) = wg s"
  "stop_err (did h s) = stop_err s" "exited (did h s) = exited s"
  "happened (did h s) = happened s @ [h]"
  by (simp_all add: did_def)






















section \<open>The interface monitor\<close>

lemma getInterfaces_all:
  assumes "net_Interfaces ne = Inr found"
  shows "getInterfaces ne [] = Returns (up_interfaces found)"
  using assms by (simp add: getInterfaces_def up_interfaces_def not_le)

lemma getInterfaces_named:
  assumes "ifName \<noteq> []" and "net_InterfaceByName ne ifName = Inr ifi"
  shows "getInterfaces ne ifName = Returns (up_interfaces [ifi])"
  using assms by (simp add: getInterfaces_def up_interfaces_def not_le)

lemma getInterfaces_fatal:
  assumes "(ifName = [] \<and> net_Interfaces ne = Inl err) \<or>
           (ifName \<noteq> [] \<and> net_InterfaceByName ne ifName = Inl err)"
  shows "getInterfaces ne ifName = Fatal [] err"
  using assms by (auto simp: getInterfaces_def)

lemma monitor_tick_Returns:
  assumes avail: "getInterfaces ne (IfName config) = Returns ifs"
  shows "(fst (monitor_tick ne config srv) \<noteq> [] \<longleftrightarrow> length (Interfaces srv) < length ifs) \<and>
         (\<not> length (Interfaces srv) < length ifs \<longrightarrow>
            monitor_tick ne config srv = ([], Returns srv)) \<and>
         (length (Interfaces srv) < length ifs \<longrightarrow>
            hd (fst (monitor_tick ne config srv)) = ServerClose srv) \<and>
         (length (Interfaces srv) < length ifs \<longrightarrow> Server_Close ne srv = None \<longrightarrow>
          net_Listen ne (Http config) = Inr conn \<longrightarrow>
          make_Icons ne (DeviceIconSizes config) (DeviceIcon config) = Inr icons \<longrightarrow>
          Server_Init ne \<lparr>Interfaces = ifs, HTTPConn = conn, Icons = icons\<rparr> = None \<longrightarrow>
            monitor_tick ne config srv =
              ([ServerClose srv, ServerNew ifs,
                ServerInit \<lparr>Interfaces = ifs, HTTPConn = conn, Icons = icons\<rparr>,
                GoServerRun \<lparr>Interfaces = ifs, HTTPConn = conn, Icons = icons\<rparr>],
               Returns \<lparr>Interfaces = ifs, HTTPConn = conn, Icons = icons\<rparr>))"
  using avail
  by (simp add: monitor_tick_def newDmsServer_def split: option.splits sum.splits outcome.splits)

text \<open>
  Claim C7. At a tick the system holds the interfaces \<open>found\<close>: all that
  \<^verbatim>\<open>net.Interfaces\<close> lists when \<^verbatim>\<open>config.IfName\<close> is empty, else the one
  \<^verbatim>\<open>net.InterfaceByName\<close> finds under that name. The available interfaces are those of
  \<open>found\<close> that are up and have a positive MTU, and they are what \<open>getInterfaces\<close>
  returns. The tick does something if and only if the instance is bound to fewer
  interfaces than are available. With as many or more it does nothing and \<^verbatim>\<open>p.dmsServer\<close>
  stays. With fewer its first action is to close the old instance, and when \<^verbatim>\<open>Close\<close>, the
  listener, the icons and \<^verbatim>\<open>Init\<close> succeed it closes the old instance, makes a new one bound
  to the available interfaces, initialises it, launches its \<^verbatim>\<open>Run\<close> and leaves it in
  \<^verbatim>\<open>p.dmsServer\<close> (a failure of one of the four is fatal to the process). When the lookup
  of the interfaces itself fails, the tick does nothing to the instance and the process
  ends with that error.
\<close>

theorem monitor_tick_replaces_iff_more:
  "((IfName config = [] \<and> net_Interfaces ne = Inr found) \<or>
    (IfName config \<noteq> [] \<and> net_InterfaceByName ne (IfName config) = Inr ifi \<and> found = [ifi]) \<longrightarrow>
      getInterfaces ne (IfName config) = Returns (up_interfaces found) \<and>
      (fst (monitor_tick ne config srv) \<noteq> [] \<longleftrightarrow>
         length (Interfaces srv) < length (up_interfaces found)) \<and>
      (\<not> length (Interfaces srv) < length (up_interfaces found) \<longrightarrow>
         monitor_tick ne config srv = ([], Returns srv)) \<and>
      (length (Interfaces srv) < length (up_interfaces found) \<longrightarrow>
         hd (fst (monitor_tick ne config srv)) = ServerClose srv) \<and>
      (length (Interfaces srv) < length (up_interfaces found) \<longrightarrow> Server_Close ne srv = None \<longrightarrow>
       net_Listen ne (Http config) = Inr conn \<longrightarrow>
       make_Icons ne (DeviceIconSizes config) (DeviceIcon config) = Inr icons \<longrightarrow>
       Server_Init ne \<lparr>Interfaces = up_interfaces found, HTTPConn = conn, Icons = icons\<rparr> = None \<longrightarrow>
         monitor_tick ne config srv =
           ([ServerClose srv, ServerNew (up_interfaces found),
             ServerInit \<lparr>Interfaces = up_interfaces found, HTTPConn = conn, Icons = icons\<rparr>,
             GoServerRun \<lparr>Interfaces = up_interfaces found, HTTPConn = conn, Icons = icons\<rparr>],
            Returns \<lparr>Interfaces = up_interfaces found, HTTPConn = conn, Icons = icons\<rparr>))) \<and>
   ((IfName config = [] \<and> net_Interfaces ne = Inl err) \<or>
    (IfName config \<noteq> [] \<and> net_InterfaceByName ne (IfName config) = Inl err) \<longrightarrow>
      monitor_tick ne config srv = ([], Fatal [] err))"
proof (rule conjI; rule impI)
  assume "(IfName config = [] \<and> net_Interfaces ne = Inl err) \<or>
    (IfName config \<noteq> [] \<and> net_InterfaceByName ne (IfName config) = Inl err)"
  then have "getInterfaces ne (IfName config) = Fatal [] err"
    by (rule getInterfaces_fatal)
  then show "monitor_tick ne config srv = ([], Fatal [] err)"
    by (simp add: monitor_tick_def)
next
  assume "(IfName config = [] \<and> net_Interfaces ne = Inr found) \<or>
    (IfName config \<noteq> [] \<and> net_InterfaceByName ne (IfName config) = Inr ifi \<and> found = [ifi])"
  then have avail: "getInterfaces ne (IfName config) = Returns (up_interfaces found)"
    using getInterfaces_all [of ne found] getInterfaces_named [of "IfName config" ne ifi]
    by auto
  note tick = monitor_tick_Returns [OF avail, of srv conn icons]
  from avail tick show "getInterfaces ne (IfName config) = Returns (up_interfaces found) \<and>
      (fst (monitor_tick ne config srv) \<noteq> [] \<longleftrightarrow>
         length (Interfaces srv) < length (up_interfaces found)) \<and>
      (\<not> length (Interfaces srv) < length (up_interfaces found) \<longrightarrow>
         monitor_tick ne config srv = ([], Returns srv)) \<and>
      (length (Interfaces srv) < length (up_interfaces found) \<longrightarrow>
         hd (fst (monitor_tick ne config srv)) = ServerClose srv) \<and>
      (length (Interfaces srv) < length (up_interfaces found) \<longrightarrow> Server_Close ne srv = None \<longrightarrow>
       net_Listen ne (Http config) = Inr conn \<longrightarrow>
       make_Icons ne (DeviceIconSizes config) (DeviceIcon config) = Inr icons \<longrightarrow>
       Server_Init ne \<lparr>Interfaces = up_interfaces found, HTTPConn = conn, Icons = icons\<rparr> = None \<longrightarrow>
         monitor_tick ne config srv =
           ([ServerClose srv, ServerNew (up_interfaces found),
             ServerInit \<lparr>Interfaces = up_interfaces found, HTTPConn = conn, Icons = icons\<rparr>,
             GoServerRun \<lparr>Interfaces = up_interfaces found, HTTPConn = conn, Icons = icons\<rparr>],
            Returns \<lparr>Interfaces = up_interfaces found, HTTPConn = conn, Icons = icons\<rparr>))"
    by (rule conjI)
qed

lemmas net_defs = demo_net_def demo_config_def eth0_def wlan0_def tun0_def bound_eth0_def
  bound_both_def only_wlan0_def wlan0_config_def bound_none_def bound_wlan0_def

text \<open>The system holds \<open>eth0\<close>, the tunnel \<open>tun0\<close> that is not up, and \<open>wlan0\<close>; the instance
  is bound to \<open>eth0\<close>. With no interface name configured, two interfaces are available and
  the instance is replaced by one bound to both; while the system holds only \<open>eth0\<close> and
  \<open>tun0\<close> the tick does nothing. With the name \<open>wlan0\<close> configured and an instance bound to
  no interface, the instance is replaced by one bound to \<open>wlan0\<close>. When \<^verbatim>\<open>net.Interfaces\<close>
  fails the process ends.\<close>

theorem monitor_tick_replaces_iff_more_witness:
  "up_interfaces [eth0, tun0, wlan0] = [eth0, wlan0] \<and>
   getInterfaces (demo_net [eth0, tun0, wlan0]) (IfName demo_config) = Returns [eth0, wlan0] \<and>
   monitor_tick (demo_net [eth0, tun0, wlan0]) demo_config bound_eth0 =
     ([ServerClose bound_eth0, ServerNew [eth0, wlan0], ServerInit bound_both, GoServerRun bound_both],
      Returns bound_both) \<and>
   up_interfaces [eth0, tun0] = [eth0] \<and>
   monitor_tick (demo_net [eth0, tun0]) demo_config bound_eth0 = ([], Returns bound_eth0) \<and>
   monitor_tick only_wlan0 wlan0_config bound_none =
     ([ServerClose bound_none, ServerNew [wlan0], ServerInit bound_wlan0, GoServerRun bound_wlan0],
      Returns bound_wlan0) \<and>
   monitor_tick ((demo_net []) \<lparr>net_Interfaces := Inl (Errno 24)\<rparr>) demo_config bound_eth0 =
     ([], Fatal [] (Errno 24))"
proof -
  let ?ne = "demo_net [eth0, tun0, wlan0]"
  have u: "up_interfaces [eth0, tun0, wlan0] = [eth0, wlan0]" "up_interfaces [eth0, tun0] = [eth0]"
    "up_interfaces [wlan0] = [wlan0]"
    by (simp_all add: up_interfaces_def eth0_def tun0_def wlan0_def FlagUp_def)
  have b: "bound_both = \<lparr>Interfaces = [eth0, wlan0], HTTPConn = 7, Icons = [[], []]\<rparr>"
    "bound_wlan0 = \<lparr>Interfaces = [wlan0], HTTPConn = 7, Icons = [[], []]\<rparr>"
    by (simp_all add: bound_both_def bound_wlan0_def)
  have h1: "IfName demo_config = [] \<and> net_Interfaces ?ne = Inr [eth0, tun0, wlan0]"
    by (simp add: demo_net_def demo_config_def)
  have h2: "length (Interfaces bound_eth0) < length [eth0, wlan0]"
    by (simp add: bound_eth0_def)
  have h3: "Server_Close ?ne bound_eth0 = None" "net_Listen ?ne (Http demo_config) = Inr 7"
    "make_Icons ?ne (DeviceIconSizes demo_config) (DeviceIcon demo_config) = Inr [[], []]"
    "Server_Init ?ne bound_both = None"
    by (simp_all add: demo_net_def demo_config_def)
  note th1 = monitor_tick_replaces_iff_more [where ne = ?ne and config = demo_config
      and found = "[eth0, tun0, wlan0]" and srv = bound_eth0 and conn = 7 and icons = "[[], []]",
      THEN conjunct1, unfolded u, folded b]
  from th1 h1 h2 h3 have g1: "getInterfaces ?ne (IfName demo_config) = Returns [eth0, wlan0]"
    and t1: "monitor_tick ?ne demo_config bound_eth0 =
     ([ServerClose bound_eth0, ServerNew [eth0, wlan0], ServerInit bound_both, GoServerRun bound_both],
      Returns bound_both)"
    by blast+
  have h4: "IfName demo_config = [] \<and> net_Interfaces (demo_net [eth0, tun0]) = Inr [eth0, tun0]"
    by (simp add: demo_net_def demo_config_def)
  have h5: "\<not> length (Interfaces bound_eth0) < length [eth0]"
    by (simp add: bound_eth0_def)
  note th2 = monitor_tick_replaces_iff_more [where ne = "demo_net [eth0, tun0]" and config = demo_config
      and found = "[eth0, tun0]" and srv = bound_eth0, THEN conjunct1, unfolded u]
  from th2 h4 h5 have t2: "monitor_tick (demo_net [eth0, tun0]) demo_config bound_eth0 =
      ([], Returns bound_eth0)"
    by blast
  have h6: "IfName wlan0_config \<noteq> [] \<and>
      net_InterfaceByName only_wlan0 (IfName wlan0_config) = Inr wlan0 \<and> [wlan0] = [wlan0]"
    by (simp add: only_wlan0_def wlan0_config_def)
  have h7: "length (Interfaces bound_none) < length [wlan0]"
    by (simp add: bound_none_def)
  have h8: "Server_Close only_wlan0 bound_none = None" "net_Listen only_wlan0 (Http wlan0_config) = Inr 7"
    "make_Icons only_wlan0 (DeviceIconSizes wlan0_config) (DeviceIcon wlan0_config) = Inr [[], []]"
    "Server_Init only_wlan0 bound_wlan0 = None"
    by (simp_all add: only_wlan0_def wlan0_config_def)
  note th3 = monitor_tick_replaces_iff_more [where ne = only_wlan0 and config = wlan0_config
      and found = "[wlan0]" and ifi = wlan0 and srv = bound_none and conn = 7 and icons = "[[], []]",
      THEN conjunct1, unfolded u, folded b]
  from th3 h6 h7 h8 have t3: "monitor_tick only_wlan0 wlan0_config bound_none =
     ([ServerClose bound_none, ServerNew [wlan0], ServerInit bound_wlan0, GoServerRun bound_wlan0],
      Returns bound_wlan0)"
    by blast
  let ?bad = "(demo_net []) \<lparr>net_Interfaces := Inl (Errno 24)\<rparr>"
  have h9: "IfName demo_config = [] \<and> net_Interfaces ?bad = Inl (Errno 24)"
    by (simp add: demo_config_def)
  note th4 = monitor_tick_replaces_iff_more [where ne = ?bad and config = demo_config
      and err = "Errno 24" and srv = bound_eth0, THEN conjunct2]
  from th4 h9 have t4: "monitor_tick ?bad demo_config bound_eth0 = ([], Fatal [] (Errno 24))"
    by blast
  from u g1 t1 t2 t3 t4 show ?thesis
    by simp
qed

section \<open>The allowed networks\<close>

lemma makeIpNets_loop_eq:
  "makeIpNets_loop np els nets lg =
     (nets @ map Some (List.map_filter (kept np) els), lg @ concat (map (skipped np) els))"
proof (induction els arbitrary: nets lg)
  case Nil
  show ?case by (simp add: List.map_filter_simps)
next
  case (Cons el els)
  show ?case
    by (cases "ParseIP np el"; cases "ParseCIDR np el"; cases "ParseCIDR np (el @ ''/32'')")
      (auto simp: Cons.IH kept_def skipped_def ipnet_of_def List.map_filter_simps)
qed

text \<open>
  Claim C10. On the empty string \<open>makeIpNets\<close> returns, in this order, what
  \<^verbatim>\<open>net.ParseCIDR\<close> makes of \<open>0.0.0.0/0\<close> and of \<open>::/0\<close>, and logs nothing; where
  \<^verbatim>\<open>net.ParseCIDR\<close> parses the two as networks of four and sixteen zero bytes with an
  all-zero mask, these are the two networks returned. On a non-empty string it splits at
  the commas and walks the elements in order: an element that \<^verbatim>\<open>net.ParseIP\<close> accepts adds
  the network \<^verbatim>\<open>net.ParseCIDR\<close> makes of the element followed by \<open>/32\<close>, another element
  adds the network \<^verbatim>\<open>net.ParseCIDR\<close> makes of it, and an element that gives no network
  adds nothing but one log line. The result is a list of networks and log lines only: there
  is no error to return.
\<close>

theorem makeIpNets_networks:
  "makeIpNets np [] =
     ([ipnet_of (ParseCIDR np ''0.0.0.0/0''), ipnet_of (ParseCIDR np ''::/0'')], []) \<and>
   (ParseCIDR np ''0.0.0.0/0'' = Inr (ip4, \<lparr>IP = [0, 0, 0, 0], Mask = [0, 0, 0, 0]\<rparr>) \<longrightarrow>
    ParseCIDR np ''::/0'' = Inr (ip6, \<lparr>IP = replicate 16 0, Mask = replicate 16 0\<rparr>) \<longrightarrow>
      fst (makeIpNets np []) =
        [Some \<lparr>IP = [0, 0, 0, 0], Mask = [0, 0, 0, 0]\<rparr>,
         Some \<lparr>IP = replicate 16 0, Mask = replicate 16 0\<rparr>]) \<and>
   (s \<noteq> [] \<longrightarrow>
      makeIpNets np s =
        (map Some (List.map_filter (kept np) (strings_Split s CHR '','')),
         concat (map (skipped np) (strings_Split s CHR '','')))) \<and>
   (\<forall>el \<in> set (strings_Split s CHR '',''). \<forall>ip ip' ipnet.
      s \<noteq> [] \<longrightarrow> ParseIP np el = Some ip \<longrightarrow> ParseCIDR np (el @ ''/32'') = Inr (ip', ipnet) \<longrightarrow>
        Some ipnet \<in> set (fst (makeIpNets np s)))"
proof (intro conjI impI ballI allI)
  show "makeIpNets np [] =
     ([ipnet_of (ParseCIDR np ''0.0.0.0/0''), ipnet_of (ParseCIDR np ''::/0'')], [])"
    by (simp add: makeIpNets_def)
next
  assume "ParseCIDR np ''0.0.0.0/0'' = Inr (ip4, \<lparr>IP = [0, 0, 0, 0], Mask = [0, 0, 0, 0]\<rparr>)"
    and "ParseCIDR np ''::/0'' = Inr (ip6, \<lparr>IP = replicate 16 0, Mask = replicate 16 0\<rparr>)"
  then show "fst (makeIpNets np []) =
        [Some \<lparr>IP = [0, 0, 0, 0], Mask = [0, 0, 0, 0]\<rparr>,
         Some \<lparr>IP = replicate 16 0, Mask = replicate 16 0\<rparr>]"
    by (simp add: makeIpNets_def ipnet_of_def)
next
  assume "s \<noteq> []"
  then show "makeIpNets np s =
        (map Some (List.map_filter (kept np) (strings_Split s CHR '','')),
         concat (map (skipped np) (strings_Split s CHR '','')))"
    by (simp add: makeIpNets_def makeIpNets_loop_eq)
next
  fix el ip ip' ipnet
  assume el: "el \<in> set (strings_Split s CHR '','')" and s: "s \<noteq> []"
    and "ParseIP np el = Some ip" and "ParseCIDR np (el @ ''/32'') = Inr (ip', ipnet)"
  then have "kept np el = Some ipnet"
    by (simp add: kept_def ipnet_of_def)
  with el have "ipnet \<in> set (List.map_filter (kept np) (strings_Split s CHR '',''))"
    by (force simp: List.map_filter_def)
  with s show "Some ipnet \<in> set (fst (makeIpNets np s))"
    by (simp add: makeIpNets_def makeIpNets_loop_eq)
qed

text \<open>An address, a word that is neither address nor network, and a network: the address
  is kept with the mask of \<open>/32\<close>, the network as it is, and the word is logged.\<close>

theorem makeIpNets_networks_witness:
  "ParseCIDR demo_parse ''0.0.0.0/0'' = Inr ([0, 0, 0, 0], \<lparr>IP = [0, 0, 0, 0], Mask = [0, 0, 0, 0]\<rparr>) \<and>
   ParseCIDR demo_parse ''::/0'' = Inr (replicate 16 0, \<lparr>IP = replicate 16 0, Mask = replicate 16 0\<rparr>) \<and>
   fst (makeIpNets demo_parse []) =
     [Some \<lparr>IP = [0, 0, 0, 0], Mask = [0, 0, 0, 0]\<rparr>,
      Some \<lparr>IP = replicate 16 0, Mask = replicate 16 0\<rparr>] \<and>
   ''10.0.0.1,localhost,192.168.0.0/16'' \<noteq> [] \<and>
   makeIpNets demo_parse ''10.0.0.1,localhost,192.168.0.0/16'' =
     ([Some \<lparr>IP = [10, 0, 0, 1], Mask = [255, 255, 255, 255]\<rparr>,
       Some \<lparr>IP = [192, 168, 0, 0], Mask = [255, 255, 0, 0]\<rparr>],
      [LogQuote ''unable to parse expression %q'' ''localhost''])"
proof -
  let ?s = "''10.0.0.1,localhost,192.168.0.0/16''"
  have h1: "ParseCIDR demo_parse ''0.0.0.0/0'' =
      Inr ([0, 0, 0, 0], \<lparr>IP = [0, 0, 0, 0], Mask = [0, 0, 0, 0]\<rparr>)"
    by (simp add: demo_parse_def)
  have h2: "ParseCIDR demo_parse ''::/0'' =
      Inr (replicate 16 0, \<lparr>IP = replicate 16 0, Mask = replicate 16 0\<rparr>)"
    by (simp add: demo_parse_def)
  have h3: "?s \<noteq> []"
    by simp
  have sp: "strings_Split ?s CHR '','' = [''10.0.0.1'', ''localhost'', ''192.168.0.0/16'']"
    by simp
  have k: "kept demo_parse ''10.0.0.1'' = Some \<lparr>IP = [10, 0, 0, 1], Mask = [255, 255, 255, 255]\<rparr>"
    "kept demo_parse ''localhost'' = None"
    "kept demo_parse ''192.168.0.0/16'' = Some \<lparr>IP = [192, 168, 0, 0], Mask = [255, 255, 0, 0]\<rparr>"
    by (simp_all add: kept_def demo_parse_def ipnet_of_def)
  have sk: "skipped demo_parse ''localhost'' = [LogQuote ''unable to parse expression %q'' ''localhost'']"
    "skipped demo_parse ''10.0.0.1'' = []" "skipped demo_parse ''192.168.0.0/16'' = []"
    unfolding skipped_def k by (simp_all add: demo_parse_def)
  note th = makeIpNets_networks [where np = demo_parse and s = ?s
      and ?ip4.0 = "[0, 0, 0, 0]" and ?ip6.0 = "replicate 16 0"]
  have a: "fst (makeIpNets demo_parse []) =
     [Some \<lparr>IP = [0, 0, 0, 0], Mask = [0, 0, 0, 0]\<rparr>,
      Some \<lparr>IP = replicate 16 0, Mask = replicate 16 0\<rparr>]"
    using th [THEN conjunct2, THEN conjunct1] h1 h2 by blast
  have b: "makeIpNets demo_parse ?s =
     (map Some (List.map_filter (kept demo_parse) (strings_Split ?s CHR '','')),
      concat (map (skipped demo_parse) (strings_Split ?s CHR '','')))"
    using th [THEN conjunct2, THEN conjunct2, THEN conjunct1] h3 by blast
  have c: "makeIpNets demo_parse ?s =
     ([Some \<lparr>IP = [10, 0, 0, 1], Mask = [255, 255, 255, 255]\<rparr>,
       Some \<lparr>IP = [192, 168, 0, 0], Mask = [255, 255, 0, 0]\<rparr>],
      [LogQuote ''unable to parse expression %q'' ''localhost''])"
    unfolding b sp by (simp add: List.map_filter_simps k sk)
  from h1 h2 h3 a c show ?thesis
    by blast
qed

section \<open>Saving and loading again\<close>

declare rr_evict.simps [simp del]

lemma rr_evict_stop:
  "rr_total c \<le> maxSize c \<or> filter (\<lambda>entry. fst entry \<noteq> key) (table c) = [] \<Longrightarrow>
     rr_evict key c = c"
  by (subst rr_evict.simps) simp

lemma rr_evict_props:
  "maxSize (rr_evict key c) = maxSize c \<and>
   (\<exists>P. table (rr_evict key c) = filter P (table c)) \<and>
   (rr_total (rr_evict key c) \<le> maxSize c \<or>
    filter (\<lambda>entry. fst entry \<noteq> key) (table (rr_evict key c)) = [])"
proof (induction key c rule: rr_evict.induct)
  case (1 key c)
  let ?others = "filter (\<lambda>entry. fst entry \<noteq> key) (table c)"
  show ?case
  proof (cases "rr_total c \<le> maxSize c \<or> ?others = []")
    case True
    then have "rr_evict key c = c"
      by (rule rr_evict_stop)
    moreover have "table c = filter (\<lambda>entry. True) (table c)"
      by simp
    ultimately show ?thesis
      using True by metis
  next
    case False
    let ?victim = "fst (?others ! (rnd c (drawn c) mod length ?others))"
    let ?c' = "c\<lparr>table := filter (\<lambda>entry. fst entry \<noteq> ?victim) (table c), drawn := Suc (drawn c)\<rparr>"
    have eq: "rr_evict key c = rr_evict key ?c'"
      using False by (subst rr_evict.simps) simp
    from "1.IH" [OF False] obtain P where
      m: "maxSize (rr_evict key ?c') = maxSize ?c'"
      and t: "table (rr_evict key ?c') = filter P (table ?c')"
      and b: "rr_total (rr_evict key ?c') \<le> maxSize ?c' \<or>
        filter (\<lambda>entry. fst entry \<noteq> key) (table (rr_evict key ?c')) = []"
      by blast
    have "table (rr_evict key c) = filter (\<lambda>entry. fst entry \<noteq> ?victim \<and> P entry) (table c)"
      unfolding eq t by (simp add: conj_commute)
    then have "\<exists>P. table (rr_evict key c) = filter P (table c)"
      by blast
    with m b show ?thesis
      unfolding eq by simp
  qed
qed




lemma rr_put_mem: "(key, val, sz) \<in> set (rr_put key val sz tbl)"
  by (force simp: rr_put_def)





lemma rr_Set_maxSize: "maxSize (rr_Set key val sz c) = maxSize c"
  using rr_evict_props [of key "c\<lparr>table := rr_put key val sz (table c)\<rparr>"]
  by (simp add: rr_Set_def)













lemmas probe_defs = probe_json_def probe_rr_def probe_world_def key_a_def key_b_def info_b_def
  text_key_a_def text_key_b_def text_info_b_def text_b_a_def


end
